theory Spec2Isabelle
  imports Complex_Main
begin

section \<open>JavaScript numbers\<close>

text \<open>
  A JavaScript \<^verbatim>\<open>number\<close> is an IEEE double. The model keeps the three non-finite values
  apart and takes every finite value as an exact rational: rounding of finite results and
  the sign of zero are not modelled. Comparisons with \<^verbatim>\<open>NaN\<close> are false, as in the
  language.
\<close>

datatype jsnum = Num rat | PosInf | NegInf | NaN

fun isFinite :: "jsnum \<Rightarrow> bool" where
  "isFinite (Num _) = True"
| "isFinite _ = False"

fun js_lt :: "jsnum \<Rightarrow> jsnum \<Rightarrow> bool" where
  "js_lt (Num x) (Num y) = (x < y)"
| "js_lt NaN _ = False"
| "js_lt _ NaN = False"
| "js_lt NegInf NegInf = False"
| "js_lt NegInf _ = True"
| "js_lt _ NegInf = False"
| "js_lt PosInf _ = False"
| "js_lt _ PosInf = True"

fun js_le :: "jsnum \<Rightarrow> jsnum \<Rightarrow> bool" where
  "js_le (Num x) (Num y) = (x \<le> y)"
| "js_le NaN _ = False"
| "js_le _ NaN = False"
| "js_le NegInf _ = True"
| "js_le _ PosInf = True"
| "js_le PosInf _ = False"
| "js_le _ NegInf = False"

definition js_gt :: "jsnum \<Rightarrow> jsnum \<Rightarrow> bool" where
  "js_gt a b = js_lt b a"

definition js_ge :: "jsnum \<Rightarrow> jsnum \<Rightarrow> bool" where
  "js_ge a b = js_le b a"

fun js_neg :: "jsnum \<Rightarrow> jsnum" where
  "js_neg (Num x) = Num (- x)"
| "js_neg PosInf = NegInf"
| "js_neg NegInf = PosInf"
| "js_neg NaN = NaN"

fun js_add :: "jsnum \<Rightarrow> jsnum \<Rightarrow> jsnum" where
  "js_add (Num x) (Num y) = Num (x + y)"
| "js_add NaN _ = NaN"
| "js_add _ NaN = NaN"
| "js_add PosInf NegInf = NaN"
| "js_add NegInf PosInf = NaN"
| "js_add PosInf _ = PosInf"
| "js_add NegInf _ = NegInf"
| "js_add _ PosInf = PosInf"
| "js_add _ NegInf = NegInf"

definition js_sub :: "jsnum \<Rightarrow> jsnum \<Rightarrow> jsnum" where
  "js_sub a b = js_add a (js_neg b)"

text \<open>The sign of a value that is not \<^verbatim>\<open>NaN\<close>: \<open>-1\<close>, \<open>0\<close> or \<open>1\<close>.\<close>

fun js_sign :: "jsnum \<Rightarrow> int" where
  "js_sign (Num x) = (if x < 0 then - 1 else if x = 0 then 0 else 1)"
| "js_sign PosInf = 1"
| "js_sign NegInf = - 1"
| "js_sign NaN = 0"

definition inf_of_sign :: "int \<Rightarrow> jsnum" where
  "inf_of_sign s = (if s = 0 then NaN else if s < 0 then NegInf else PosInf)"

fun js_mul :: "jsnum \<Rightarrow> jsnum \<Rightarrow> jsnum" where
  "js_mul (Num x) (Num y) = Num (x * y)"
| "js_mul NaN _ = NaN"
| "js_mul _ NaN = NaN"
| "js_mul a b = inf_of_sign (js_sign a * js_sign b)"

fun js_div :: "jsnum \<Rightarrow> jsnum \<Rightarrow> jsnum" where
  "js_div (Num x) (Num y) = (if y = 0 then inf_of_sign (js_sign (Num x)) else Num (x / y))"
| "js_div NaN _ = NaN"
| "js_div _ NaN = NaN"
| "js_div (Num x) _ = Num 0"
| "js_div a (Num y) = inf_of_sign (js_sign a * (if y < 0 then - 1 else 1))"
| "js_div _ _ = NaN"

text \<open>\<^verbatim>\<open>Math.min\<close>, \<^verbatim>\<open>Math.max\<close>: \<^verbatim>\<open>NaN\<close> if an argument is \<^verbatim>\<open>NaN\<close>.\<close>

definition Math_min :: "jsnum \<Rightarrow> jsnum \<Rightarrow> jsnum" where
  "Math_min a b = (if a = NaN \<or> b = NaN then NaN else if js_le a b then a else b)"

definition Math_max :: "jsnum \<Rightarrow> jsnum \<Rightarrow> jsnum" where
  "Math_max a b = (if a = NaN \<or> b = NaN then NaN else if js_le a b then b else a)"

fun Math_floor :: "jsnum \<Rightarrow> jsnum" where
  "Math_floor (Num x) = Num (of_int \<lfloor>x\<rfloor>)"
| "Math_floor a = a"

fun Math_ceil :: "jsnum \<Rightarrow> jsnum" where
  "Math_ceil (Num x) = Num (of_int \<lceil>x\<rceil>)"
| "Math_ceil a = a"

text \<open>\<^verbatim>\<open>Math.round\<close> rounds a half towards positive infinity.\<close>

fun Math_round :: "jsnum \<Rightarrow> jsnum" where
  "Math_round (Num x) = Num (of_int \<lfloor>x + 1 / 2\<rfloor>)"
| "Math_round a = a"

section \<open>The holdings ledger (polymarket/holdings.ts)\<close>

text \<open>
  \<^verbatim>\<open>TokenHoldings\<close>: conditionId to tokenId to amount. The ledger lives in one JSON
  file; \<open>holdings_doc\<close> is its parsed content (\<open>None\<close> when the file is missing or does
  not parse) and \<open>holdings_writable\<close> says whether \<^verbatim>\<open>writeFileSync\<close> succeeds (the source
  catches a failed write and only reports it).
\<close>

type_synonym TokenHoldings = "string \<rightharpoonup> (string \<rightharpoonup> jsnum)"

record ledger_fs =
  holdings_doc :: "TokenHoldings option"
  holdings_writable :: bool

definition loadHoldings :: "ledger_fs \<Rightarrow> TokenHoldings" where
  "loadHoldings fs = (case holdings_doc fs of None \<Rightarrow> Map.empty | Some h \<Rightarrow> h)"

definition saveHoldings :: "TokenHoldings \<Rightarrow> ledger_fs \<Rightarrow> ledger_fs" where
  "saveHoldings holdings fs =
     (if holdings_writable fs then fs\<lparr>holdings_doc := Some holdings\<rparr> else fs)"

text \<open>
  \<^verbatim>\<open>if (!conditionId || !tokenId || amount <= 0) return;\<close> then the read, the update of
  one cell (\<^verbatim>\<open>?? 0\<close> for a missing token) and the write.
\<close>

definition addHolding :: "string \<Rightarrow> string \<Rightarrow> jsnum \<Rightarrow> ledger_fs \<Rightarrow> ledger_fs" where
  "addHolding conditionId tokenId amount fs =
     (if conditionId = [] \<or> tokenId = [] \<or> js_le amount (Num 0) then fs
      else
        let holdings = loadHoldings fs;
            row = (case holdings conditionId of None \<Rightarrow> Map.empty | Some r \<Rightarrow> r);
            current = (case row tokenId of None \<Rightarrow> Num 0 | Some c \<Rightarrow> c)
        in saveHoldings (holdings(conditionId \<mapsto> row(tokenId \<mapsto> js_add current amount))) fs)"

definition getMarketHoldings :: "string \<Rightarrow> ledger_fs \<Rightarrow> (string \<rightharpoonup> jsnum)" where
  "getMarketHoldings conditionId fs =
     (case loadHoldings fs conditionId of None \<Rightarrow> Map.empty | Some r \<Rightarrow> r)"

definition clearMarketHoldings :: "string \<Rightarrow> ledger_fs \<Rightarrow> ledger_fs" where
  "clearMarketHoldings conditionId fs =
     (let holdings = loadHoldings fs
      in if holdings conditionId \<noteq> None then saveHoldings (holdings(conditionId := None)) fs
         else fs)"

text \<open>The amount the ledger holds for a token of a condition, \<open>0\<close> when there is none.\<close>

definition ledger_qty :: "ledger_fs \<Rightarrow> string \<Rightarrow> string \<Rightarrow> jsnum" where
  "ledger_qty fs conditionId tokenId =
     (case getMarketHoldings conditionId fs tokenId of None \<Rightarrow> Num 0 | Some c \<Rightarrow> c)"

section \<open>Configuration (core/config.ts)\<close>

text \<open>
  The constants the modelled functions read from the environment. They are parameters of
  the model: every theorem holds for each value unless it says otherwise.
\<close>

record config =
  POLYMARKET_PRIVATE_KEY :: string
  POLYMARKET_PROXY :: string
  POLYMARKET_TICK_SIZE :: string
  POLYMARKET_MIN_USD :: jsnum
  POLY_BUY_LIMIT_BUFFER :: jsnum
  BOT_DRY_RUN :: bool
  ARB_DRY_RUN :: bool
  ARB_SUM_THRESHOLD :: jsnum
  ARB_SUM_LOW :: jsnum
  ARB_PRICE_BUFFER :: jsnum
  ARB_SIZE :: jsnum
  ARB_KALSHI_MIN :: jsnum
  ARB_POLY_MIN :: jsnum
  POLY_BUY_MIN :: jsnum
  POLY_SELL_BELOW :: jsnum
  POLY_SELL_RANGE_BUFFER :: jsnum
  KALSHI_1_POLY_DRY_RUN :: bool
  KALSHI_1_POLY_SIZE :: jsnum
  MIN_BALANCE_USD :: jsnum

section \<open>What the process does to the outside\<close>

datatype leg = UP | DOWN

datatype kside = Yes | No

text \<open>
  The lines written to the console and the slot log, by the statement that writes them.
  The numbers formatted into a line are kept as arguments where a theorem reads them and
  left out otherwise.
\<close>

datatype log_line =
    PolyNotConfigured
  | NotionalBelowMin
  | LimitNotionalBelowMin
  | PolyBuyFailed string
  | PolyBuyPlaced string
  | PolySellFailed string
  | PolySellPlaced string
  | KalshiDryRun
  | KalshiOrderPlaced string
  | KalshiOrderFailed string
  | KalshiSellPlaced string
  | KalshiSellFailed string
  | ArbExiting leg
  | ArbExitKalshiFailed string
  | ArbExitPolyFailed string
  | ArbOpportunity leg string
  | ArbPolyFailed string
  | ArbKalshiFailed string
  | ArbFokRetry jsnum
  | K1Exit leg nat jsnum
  | K1ConservativeSize jsnum
  | K1SellSkipped
  | K1SellOk jsnum
  | K1SellFailed nat string
  | K1WillRetry nat
  | K1Abandon
  | K1SkipMarket string
  | K1UsingBalance jsnum
  | K1Entry leg jsnum
  | K1BuyFailed leg string
  | K1FokRetry jsnum
  | K1AfterBuy jsnum
  | BalanceBelowMinimum

text \<open>
  An order handed to a venue's client, a timer the code waits for, or a line logged.
  \<open>PolyBuy token price size\<close> is \<^verbatim>\<open>createAndPostOrder\<close>, \<open>PolySell token size\<close> is
  \<^verbatim>\<open>createAndPostMarketOrder\<close>, \<open>KalshiBuy\<close> and \<open>KalshiSell\<close> are \<^verbatim>\<open>createOrder\<close> with
  action buy and sell.
\<close>

datatype event =
    PolyBuy string jsnum jsnum
  | PolySell string jsnum
  | KalshiBuy string kside jsnum jsnum
  | KalshiSell string kside jsnum
  | Sleep nat
  | Log log_line

section \<open>Polymarket orders (polymarket/order.ts)\<close>

text \<open>\<^verbatim>\<open>PlacePolyResult = { orderId } | { error } | null\<close>.\<close>

datatype PlacePolyResult = OrderId string | Error string | Null

fun is_order :: "PlacePolyResult \<Rightarrow> bool" where
  "is_order (OrderId _) = True"
| "is_order _ = False"

fun is_error :: "PlacePolyResult \<Rightarrow> bool" where
  "is_error (Error _) = True"
| "is_error _ = False"

text \<open>
  What the CLOB client does with one order: \<open>NoClient m\<close> when \<^verbatim>\<open>getClobClient\<close> throws
  before anything is sent, \<open>Threw m\<close> when the post throws (\<open>m\<close> is the text the catch
  block builds), \<open>Reply orderId errMsg\<close> when it answers, with
  \<^verbatim>\<open>orderId = data.orderID ?? data.orderId\<close> and \<^verbatim>\<open>errMsg = data.error ?? data.errorMsg\<close>.
\<close>

datatype clob_reply = NoClient string | Threw string | Reply "string option" "string option"

text \<open>The options the callers pass; tick size and negative risk always come from the configuration.\<close>

record PlacePolymarketOrderOptions =
  forcePlace :: bool
  opt_conditionId :: "string option"

definition tick_decimals :: "string \<Rightarrow> nat" where
  "tick_decimals tickSize =
     (if tickSize = ''0.01'' then 2 else if tickSize = ''0.001'' then 3
      else if tickSize = ''0.0001'' then 4 else 4)"

definition roundPriceToTickSize :: "jsnum \<Rightarrow> string \<Rightarrow> jsnum" where
  "roundPriceToTickSize price tickSize =
     (let mult = Num (10 ^ tick_decimals tickSize)
      in js_div (Math_round (js_mul price mult)) mult)"

definition min_usd :: "config \<Rightarrow> jsnum" where
  "min_usd cfg = (if js_gt (POLYMARKET_MIN_USD cfg) (Num 0) then POLYMARKET_MIN_USD cfg else Num 1)"

text \<open>\<^verbatim>\<open>if (errMsg || !orderId)\<close>: an empty string is falsy.\<close>

definition reply_failed :: "string option \<Rightarrow> string option \<Rightarrow> bool" where
  "reply_failed orderId errMsg =
     ((errMsg \<noteq> None \<and> errMsg \<noteq> Some []) \<or> orderId = None \<or> orderId = Some [])"

definition reply_message :: "string option \<Rightarrow> string" where
  "reply_message errMsg = (case errMsg of None \<Rightarrow> ''No order ID in response'' | Some m \<Rightarrow> m)"

text \<open>
  \<^verbatim>\<open>placePolymarketOrder\<close>. The fulfilment check scheduled after a placement only logs and
  is left out. The two notional messages carry formatted amounts in the source; the
  model keeps their fixed words.
\<close>

definition placePolymarketOrder ::
  "config \<Rightarrow> string \<Rightarrow> jsnum \<Rightarrow> jsnum \<Rightarrow> PlacePolymarketOrderOptions \<Rightarrow> clob_reply \<Rightarrow> ledger_fs
     \<Rightarrow> PlacePolyResult \<times> ledger_fs \<times> event list" where
  "placePolymarketOrder cfg tokenId price sz options reply fs =
     (if POLYMARKET_PRIVATE_KEY cfg = [] \<or> POLYMARKET_PROXY cfg = []
      then (Null, fs, [Log PolyNotConfigured])
      else if ARB_DRY_RUN cfg \<and> \<not> forcePlace options then (Null, fs, [])
      else if js_lt (js_mul price sz) (min_usd cfg)
      then (Error ''Polymarket order notional below min'', fs, [Log NotionalBelowMin])
      else case reply of
        NoClient m \<Rightarrow> (Error m, fs, [Log (PolyBuyFailed m)])
      | _ \<Rightarrow>
        (let limitPrice = Math_min (js_add price (POLY_BUY_LIMIT_BUFFER cfg)) (Num (99 / 100));
             roundedPrice = roundPriceToTickSize limitPrice (POLYMARKET_TICK_SIZE cfg)
         in if js_lt (js_mul roundedPrice sz) (min_usd cfg)
            then (Error ''Polymarket limit order notional below min'', fs,
                  [Log LimitNotionalBelowMin])
            else (case reply of
              Threw m \<Rightarrow> (Error m, fs, [PolyBuy tokenId roundedPrice sz, Log (PolyBuyFailed m)])
            | Reply orderId errMsg \<Rightarrow>
                (if reply_failed orderId errMsg
                 then (Error (reply_message errMsg), fs,
                       [PolyBuy tokenId roundedPrice sz, Log (PolyBuyFailed (reply_message errMsg))])
                 else (OrderId (the orderId),
                       (case opt_conditionId options of
                          None \<Rightarrow> fs
                        | Some c \<Rightarrow> (if c = [] then fs else addHolding c tokenId sz fs)),
                       [PolyBuy tokenId roundedPrice sz, Log (PolyBuyPlaced (the orderId))]))
            | NoClient m \<Rightarrow> (Error m, fs, [Log (PolyBuyFailed m)]))))"

text \<open>\<^verbatim>\<open>sellPolymarketOrder\<close>: a market sell of \<open>sz\<close> shares (\<^verbatim>\<open>size\<close> in the source).\<close>

definition sellPolymarketOrder ::
  "config \<Rightarrow> string \<Rightarrow> jsnum \<Rightarrow> PlacePolymarketOrderOptions \<Rightarrow> clob_reply
     \<Rightarrow> PlacePolyResult \<times> event list" where
  "sellPolymarketOrder cfg tokenId sz options reply =
     (if POLYMARKET_PRIVATE_KEY cfg = [] \<or> POLYMARKET_PROXY cfg = [] then (Null, [])
      else if ARB_DRY_RUN cfg \<and> \<not> forcePlace options then (Null, [])
      else if js_le sz (Num 0) then (Error ''Sell size must be positive'', [])
      else case reply of
        NoClient m \<Rightarrow> (Error m, [Log (PolySellFailed m)])
      | Threw m \<Rightarrow> (Error m, [PolySell tokenId sz, Log (PolySellFailed m)])
      | Reply orderId errMsg \<Rightarrow>
          if reply_failed orderId errMsg
          then (Error (reply_message errMsg),
                [PolySell tokenId sz, Log (PolySellFailed (reply_message errMsg))])
          else (OrderId (the orderId),
                [PolySell tokenId sz, Log (PolySellPlaced (the orderId))]))"

section \<open>Kalshi orders (kalshi/bot.ts)\<close>

datatype kalshi_result = KOrderId string | KError string

fun k_is_error :: "kalshi_result \<Rightarrow> bool" where
  "k_is_error (KError _) = True"
| "k_is_error _ = False"

text \<open>
  What \<^verbatim>\<open>ordersApi.createOrder\<close> does: it throws with a message, or answers with an order
  whose id may be missing (\<^verbatim>\<open>order?.order_id ?? "unknown"\<close>).
\<close>

datatype kalshi_reply = KThrew string | KOrder "string option"

definition kalshi_order_id :: "string option \<Rightarrow> string" where
  "kalshi_order_id oid = (case oid of None \<Rightarrow> ''unknown'' | Some i \<Rightarrow> i)"

definition placeOrder ::
  "config \<Rightarrow> string \<Rightarrow> kside \<Rightarrow> jsnum \<Rightarrow> jsnum \<Rightarrow> bool \<Rightarrow> kalshi_reply
     \<Rightarrow> kalshi_result \<times> event list" where
  "placeOrder cfg ticker side count priceCents arbLive reply =
     (let dryRun = (if arbLive then False else BOT_DRY_RUN cfg)
      in if dryRun then (KOrderId ''dry-run'', [Log KalshiDryRun])
         else
           let price = Math_max (Num 1) (Math_min (Num 99) priceCents)
           in case reply of
                KOrder oid \<Rightarrow>
                  (KOrderId (kalshi_order_id oid),
                   [KalshiBuy ticker side count price, Log (KalshiOrderPlaced (kalshi_order_id oid))])
              | KThrew m \<Rightarrow>
                  (KError m, [KalshiBuy ticker side count price, Log (KalshiOrderFailed m)]))"

definition placeSellOrder ::
  "config \<Rightarrow> string \<Rightarrow> kside \<Rightarrow> jsnum \<Rightarrow> bool \<Rightarrow> kalshi_reply \<Rightarrow> kalshi_result \<times> event list" where
  "placeSellOrder cfg ticker side count arbLive reply =
     (let dryRun = (if arbLive then False else BOT_DRY_RUN cfg)
      in if dryRun then (KOrderId ''dry-run'', [Log KalshiDryRun])
         else case reply of
                KOrder oid \<Rightarrow>
                  (KOrderId (kalshi_order_id oid),
                   [KalshiSell ticker side count, Log (KalshiSellPlaced (kalshi_order_id oid))])
              | KThrew m \<Rightarrow> (KError m, [KalshiSell ticker side count, Log (KalshiSellFailed m)]))"

section \<open>Price snapshots (monitor/dual-monitor.ts, polymarket/prices.ts)\<close>

record MarketPrices =
  upAskCents :: jsnum
  downAskCents :: jsnum

record PolymarketPrices =
  upAsk :: jsnum
  downAsk :: jsnum
  upTokenId :: string
  downTokenId :: string
  conditionId :: string

record DualMarketPrices =
  kalshiTicker :: string
  kalshi :: "MarketPrices option"
  polymarket :: "PolymarketPrices option"

section \<open>Fill-failure patterns\<close>

text \<open>
  The regular expressions of the source are alternatives of plain words in which \<^verbatim>\<open>.\<close>
  stands for any character but a line terminator, searched anywhere in the text without
  regard to case. A pattern is written as a string in which \<^verbatim>\<open>.\<close> is that wildcard.
\<close>

definition upper_ascii :: "char \<Rightarrow> char" where
  "upper_ascii c =
     (let n = (of_char c :: nat) in if 97 \<le> n \<and> n \<le> 122 then char_of (n - 32) else c)"

fun match_here :: "string \<Rightarrow> string \<Rightarrow> bool" where
  "match_here [] s = True"
| "match_here (p # ps) [] = False"
| "match_here (p # ps) (c # cs) =
     ((if p = CHR ''.'' then c \<noteq> CHR 0x0A \<and> c \<noteq> CHR 0x0D else upper_ascii p = upper_ascii c)
      \<and> match_here ps cs)"

fun regex_test :: "string \<Rightarrow> string \<Rightarrow> bool" where
  "regex_test pat [] = match_here pat []"
| "regex_test pat (c # cs) = (match_here pat (c # cs) \<or> regex_test pat cs)"

text \<open>\<^verbatim>\<open>/couldn't be fully filled|FOK|FAK|fill.or.kill|fill.and.kill/i\<close> (monitor/arb.ts).\<close>

definition isFokNotFilledError :: "string \<Rightarrow> bool" where
  "isFokNotFilledError err =
     (regex_test ''couldn't be fully filled'' err \<or> regex_test ''FOK'' err \<or> regex_test ''FAK'' err
      \<or> regex_test ''fill.or.kill'' err \<or> regex_test ''fill.and.kill'' err)"

text \<open>\<^verbatim>\<open>/couldn't be fully filled|FOK|fill.or.kill/i\<close> (monitor/kalshi-1-poly-strategy.ts).\<close>

definition k1_fok_error :: "string \<Rightarrow> bool" where
  "k1_fok_error err =
     (regex_test ''couldn't be fully filled'' err \<or> regex_test ''FOK'' err
      \<or> regex_test ''fill.or.kill'' err)"

section \<open>The Follow-Confidence strategy (monitor/kalshi-1-poly-strategy.ts)\<close>

definition KALSHI_1 :: jsnum where "KALSHI_1 = Num 100"
definition POLY_PRICE_MAX :: jsnum where "POLY_PRICE_MAX = Num (99 / 100)"
definition FOK_RETRY_MS :: nat where "FOK_RETRY_MS = 100"
definition FOK_RETRY_BUFFER :: jsnum where "FOK_RETRY_BUFFER = Num (1 / 100)"
definition BALANCE_FETCH_DELAY_MS :: nat where "BALANCE_FETCH_DELAY_MS = 1500"
definition SELL_MAX_ATTEMPTS :: nat where "SELL_MAX_ATTEMPTS = 20"
definition SELL_RETRY_DELAY_MS :: nat where "SELL_RETRY_DELAY_MS = 1000"
definition MINUTES_PAST_QUARTER_USE_BALANCE :: jsnum where "MINUTES_PAST_QUARTER_USE_BALANCE = Num 5"

record Position =
  pos_side :: leg
  pos_tokenId :: string
  pos_size :: jsnum
  pos_conditionId :: string

text \<open>The module-level variables of the strategy.\<close>

record k1_state =
  position :: "Position option"
  lastTicker :: "string option"
  entryAttemptedTicker :: "string option"
  cycleDoneTicker :: "string option"
  seenKalshiUp1 :: bool
  seenKalshiDown1 :: bool
  strategyBusy :: bool
  seenTickers :: "string set"
  skippedTickers :: "string set"

text \<open>
  What the outside answers during one evaluation: the minutes past the quarter hour and
  the balance cache as \<^verbatim>\<open>ensureProxyBalanceScheduledOrFetched\<close> leaves them (its timer is
  outside the model), the CLOB's replies to the buy and to its retry, the best ask read
  for the retry, the on-chain balance read after the buy, and the balance and the CLOB's
  reply at each sell attempt. \<^verbatim>\<open>getProxyTokenBalanceHuman\<close> returns \<open>0\<close> when the balance is
  unavailable, so a balance is always a number.
\<close>

record k1_world =
  minsPast :: jsnum
  cachedProxyBalanceUsd :: "jsnum option"
  buy_reply :: clob_reply
  buy_best_ask :: "jsnum option"
  buy_retry_reply :: clob_reply
  after_buy_balance :: jsnum
  sell_balance :: "nat \<Rightarrow> jsnum"
  sell_reply :: "nat \<Rightarrow> clob_reply"

definition onNewTicker :: "string \<Rightarrow> k1_state \<Rightarrow> k1_state" where
  "onNewTicker ticker st =
     (if lastTicker st \<noteq> None \<and> lastTicker st \<noteq> Some ticker
      then st\<lparr>position := None, entryAttemptedTicker := None, cycleDoneTicker := None,
              seenKalshiUp1 := False, seenKalshiDown1 := False, lastTicker := Some ticker\<rparr>
      else st\<lparr>lastTicker := Some ticker\<rparr>)"

text \<open>
  The price of the retry: \<^verbatim>\<open>ask != null ? Math.min(POLY_PRICE_MAX, ask + FOK_RETRY_BUFFER) : POLY_PRICE_MAX\<close>.
\<close>

definition k1_retry_price :: "jsnum option \<Rightarrow> jsnum" where
  "k1_retry_price ask =
     (case ask of
        Some a \<Rightarrow> Math_min POLY_PRICE_MAX (js_add a FOK_RETRY_BUFFER)
      | None \<Rightarrow> POLY_PRICE_MAX)"

definition placePolyBuyWithRetry ::
  "config \<Rightarrow> string \<Rightarrow> jsnum \<Rightarrow> jsnum \<Rightarrow> PlacePolymarketOrderOptions
     \<Rightarrow> clob_reply \<Rightarrow> jsnum option \<Rightarrow> clob_reply \<Rightarrow> ledger_fs
     \<Rightarrow> PlacePolyResult \<times> ledger_fs \<times> event list" where
  "placePolyBuyWithRetry cfg tok price sz options reply1 ask reply2 fs =
     (case placePolymarketOrder cfg tok price sz options reply1 fs of
        (Error e, fs1, ev1) \<Rightarrow>
          (if \<not> k1_fok_error e then (Error e, fs1, ev1)
           else
             (case placePolymarketOrder cfg tok (k1_retry_price ask) sz options reply2 fs1 of
                (r2, fs2, ev2) \<Rightarrow>
                  (r2, fs2, ev1 @ [Sleep FOK_RETRY_MS, Log (K1FokRetry (k1_retry_price ask))] @ ev2)))
      | (r1, fs1, ev1) \<Rightarrow> (r1, fs1, ev1))"

text \<open>\<^verbatim>\<open>Math.floor(x * 100) / 100\<close>.\<close>

definition floor_cents :: "jsnum \<Rightarrow> jsnum" where
  "floor_cents x = js_div (Math_floor (js_mul x (Num 100))) (Num 100)"

definition updatePositionSizeFromBalance :: "jsnum \<Rightarrow> k1_state \<Rightarrow> k1_state \<times> event list" where
  "updatePositionSizeFromBalance balance st =
     (case position st of
        None \<Rightarrow> (st, [Sleep BALANCE_FETCH_DELAY_MS])
      | Some pos \<Rightarrow>
          let sellSize = floor_cents balance
          in (if js_ge sellSize (Num (1 / 100))
              then st\<lparr>position := Some (pos\<lparr>pos_size := sellSize\<rparr>)\<rparr> else st,
              [Sleep BALANCE_FETCH_DELAY_MS, Log (K1AfterBuy balance)]))"

text \<open>
  The threshold of the exit test:
  \<^verbatim>\<open>kalshiSameSide >= 1.0 ? POLY_SELL_BELOW - POLY_SELL_RANGE_BUFFER : POLY_SELL_BELOW\<close>.
\<close>

definition effectiveSellThreshold :: "config \<Rightarrow> jsnum \<Rightarrow> jsnum" where
  "effectiveSellThreshold cfg kalshiSameSide =
     (if js_ge kalshiSameSide (Num 1) then js_sub (POLY_SELL_BELOW cfg) (POLY_SELL_RANGE_BUFFER cfg)
      else POLY_SELL_BELOW cfg)"

text \<open>The size one sell attempt asks for, from the on-chain balance and the stored size.\<close>

definition sell_size :: "jsnum \<Rightarrow> jsnum \<Rightarrow> jsnum" where
  "sell_size balanceHuman stored =
     (if js_ge balanceHuman (Num (1 / 100)) then floor_cents balanceHuman
      else Math_max (Num (1 / 100)) (floor_cents (js_sub stored (Num (2 / 100)))))"

text \<open>
  The sell loop
  \<^verbatim>\<open>for (attempt = 1; attempt <= SELL_MAX_ATTEMPTS && position && !sold; attempt++)\<close>,
  from \<open>attempt\<close> on. A successful sell sets \<^verbatim>\<open>sold\<close> and clears the position, which ends
  the loop: the model returns there.
\<close>

function sell_loop ::
  "config \<Rightarrow> k1_world \<Rightarrow> string \<Rightarrow> nat \<Rightarrow> k1_state \<Rightarrow> ledger_fs \<Rightarrow> k1_state \<times> ledger_fs \<times> event list" where
  "sell_loop cfg w ticker attempt st fs =
     (if attempt \<le> SELL_MAX_ATTEMPTS \<and> position st \<noteq> None then
        let pos = the (position st);
            balanceHuman = sell_balance w attempt;
            sellSize = sell_size balanceHuman (pos_size pos);
            ev0 = (if \<not> js_ge balanceHuman (Num (1 / 100)) \<and> balanceHuman = Num 0 \<and> attempt = 1
                   then [Log (K1ConservativeSize sellSize)] else [])
                  @ [Log (K1Exit (pos_side pos) attempt sellSize)]
        in if js_lt sellSize (Num (1 / 100))
           then (st\<lparr>cycleDoneTicker := Some ticker, position := None\<rparr>, fs,
                 ev0 @ [Log K1SellSkipped])
           else
             (case sellPolymarketOrder cfg (pos_tokenId pos) sellSize
                     \<lparr>forcePlace = True, opt_conditionId = Some (pos_conditionId pos)\<rparr>
                     (sell_reply w attempt) of
                (OrderId oid, ev1) \<Rightarrow>
                  (st\<lparr>cycleDoneTicker := Some ticker, position := None\<rparr>,
                   clearMarketHoldings (pos_conditionId pos) fs,
                   ev0 @ ev1 @ [Log (K1SellOk sellSize)])
              | (Error e, ev1) \<Rightarrow>
                  (if attempt < SELL_MAX_ATTEMPTS
                   then (case sell_loop cfg w ticker (Suc attempt) st fs of
                           (st', fs', ev') \<Rightarrow>
                             (st', fs',
                              ev0 @ ev1 @ [Log (K1SellFailed attempt e), Log (K1WillRetry attempt),
                                           Sleep SELL_RETRY_DELAY_MS] @ ev'))
                   else (st\<lparr>cycleDoneTicker := Some ticker, position := None\<rparr>, fs,
                         ev0 @ ev1 @ [Log (K1SellFailed attempt e), Log K1Abandon]))
              | (Null, ev1) \<Rightarrow>
                  (case sell_loop cfg w ticker (Suc attempt) st fs of
                     (st', fs', ev') \<Rightarrow> (st', fs', ev0 @ ev1 @ ev')))
      else (st, fs, []))"
  by pat_completeness auto
termination
  by (relation "measure (\<lambda>(cfg, w, ticker, attempt, st, fs). Suc SELL_MAX_ATTEMPTS - attempt)") auto

declare sell_loop.simps [simp del]

text \<open>
  The size of an entry buy: the configured share count, or the whole dollars of the cached
  balance once five minutes of the quarter hour have passed and the cache holds at least
  one dollar.
\<close>

definition entry_size :: "config \<Rightarrow> k1_world \<Rightarrow> jsnum" where
  "entry_size cfg w =
     (if js_ge (minsPast w) MINUTES_PAST_QUARTER_USE_BALANCE
      then (case cachedProxyBalanceUsd w of
              Some balance \<Rightarrow>
                if js_ge balance (Num 1) then Math_max (Num 1) (Math_floor balance)
                else KALSHI_1_POLY_SIZE cfg
            | None \<Rightarrow> KALSHI_1_POLY_SIZE cfg)
      else KALSHI_1_POLY_SIZE cfg)"

definition entry_size_log :: "k1_world \<Rightarrow> event list" where
  "entry_size_log w =
     (if js_ge (minsPast w) MINUTES_PAST_QUARTER_USE_BALANCE
      then (case cachedProxyBalanceUsd w of
              Some balance \<Rightarrow> if js_ge balance (Num 1) then [Log (K1UsingBalance balance)] else []
            | None \<Rightarrow> [])
      else [])"

text \<open>
  The entry block. The source writes it twice, for UP with the up token and the up ask and
  for DOWN with the down token and the down ask; \<open>sd\<close>, \<open>tok\<close> and \<open>price\<close> are what differs.
\<close>

definition k1_entry ::
  "config \<Rightarrow> k1_world \<Rightarrow> string \<Rightarrow> leg \<Rightarrow> string \<Rightarrow> jsnum \<Rightarrow> string \<Rightarrow> k1_state \<Rightarrow> ledger_fs
     \<Rightarrow> k1_state \<times> ledger_fs \<times> event list" where
  "k1_entry cfg w ticker sd tok price cid st fs =
     (let sz = entry_size cfg w;
          ev0 = entry_size_log w @ [Log (K1Entry sd sz)]
      in if \<not> KALSHI_1_POLY_DRY_RUN cfg
         then (case placePolyBuyWithRetry cfg tok price sz
                      \<lparr>forcePlace = True, opt_conditionId = Some cid\<rparr>
                      (buy_reply w) (buy_best_ask w) (buy_retry_reply w) fs of
                 (OrderId oid, fs1, ev1) \<Rightarrow>
                   (case updatePositionSizeFromBalance (after_buy_balance w)
                           (st\<lparr>entryAttemptedTicker := Some ticker,
                               position := Some \<lparr>pos_side = sd, pos_tokenId = tok, pos_size = sz,
                                                 pos_conditionId = cid\<rparr>\<rparr>) of
                      (st2, ev2) \<Rightarrow> (st2, addHolding cid tok sz fs1, ev0 @ ev1 @ ev2))
               | (Error e, fs1, ev1) \<Rightarrow> (st, fs1, ev0 @ ev1 @ [Log (K1BuyFailed sd e)])
               | (Null, fs1, ev1) \<Rightarrow> (st, fs1, ev0 @ ev1))
         else (st, fs, ev0))"

text \<open>The branch \<^verbatim>\<open>if (position) { ... return; }\<close>.\<close>

definition k1_exit ::
  "config \<Rightarrow> k1_world \<Rightarrow> string \<Rightarrow> MarketPrices \<Rightarrow> PolymarketPrices \<Rightarrow> Position \<Rightarrow> k1_state
     \<Rightarrow> ledger_fs \<Rightarrow> k1_state \<times> ledger_fs \<times> event list" where
  "k1_exit cfg w ticker k pm pos st fs =
     (let kUp = js_div (upAskCents k) (Num 100);
          kDown = js_div (downAskCents k) (Num 100);
          currentPrice = (if pos_side pos = UP then upAsk pm else downAsk pm);
          kalshiSameSide = (if pos_side pos = UP then kUp else kDown)
      in if js_lt currentPrice (effectiveSellThreshold cfg kalshiSameSide)
         then (if \<not> KALSHI_1_POLY_DRY_RUN cfg then sell_loop cfg w ticker 1 st fs
               else (st\<lparr>cycleDoneTicker := Some ticker, position := None\<rparr>, fs, []))
         else (st, fs, []))"

text \<open>The rest of the evaluation, reached when no position is held.\<close>

definition k1_try_entry ::
  "config \<Rightarrow> k1_world \<Rightarrow> string \<Rightarrow> MarketPrices \<Rightarrow> PolymarketPrices \<Rightarrow> k1_state \<Rightarrow> ledger_fs
     \<Rightarrow> k1_state \<times> ledger_fs \<times> event list" where
  "k1_try_entry cfg w ticker k pm st fs =
     (let kUp = js_div (upAskCents k) (Num 100);
          kDown = js_div (downAskCents k) (Num 100);
          skip_now = (ticker \<notin> seenTickers st \<and> (js_ge kUp (Num 1) \<or> js_ge kDown (Num 1)));
          st1 = (if ticker \<notin> seenTickers st
                 then st\<lparr>seenTickers := insert ticker (seenTickers st),
                         skippedTickers := (if skip_now then insert ticker (skippedTickers st)
                                            else skippedTickers st)\<rparr>
                 else st);
          ev_skip = (if skip_now then [Log (K1SkipMarket ticker)] else [])
      in if ticker \<in> skippedTickers st1 then (st1, fs, ev_skip)
         else
           let st2 = st1\<lparr>seenKalshiUp1 := (seenKalshiUp1 st1 \<or> js_ge (upAskCents k) KALSHI_1),
                         seenKalshiDown1 := (seenKalshiDown1 st1 \<or> js_ge (downAskCents k) KALSHI_1)\<rparr>
           in if cycleDoneTicker st2 = Some ticker then (st2, fs, [])
              else if seenKalshiUp1 st2 \<and> js_ge (upAsk pm) (POLY_BUY_MIN cfg)
                      \<and> js_le (upAsk pm) POLY_PRICE_MAX
              then k1_entry cfg w ticker UP (upTokenId pm) (upAsk pm) (conditionId pm) st2 fs
              else if seenKalshiDown1 st2 \<and> js_ge (downAsk pm) (POLY_BUY_MIN cfg)
                      \<and> js_le (downAsk pm) POLY_PRICE_MAX
              then k1_entry cfg w ticker DOWN (downTokenId pm) (downAsk pm) (conditionId pm) st2 fs
              else (st2, fs, []))"

text \<open>
  \<^verbatim>\<open>checkKalshi1PolyStrategy\<close>: nothing without both venues' prices, nothing while an
  earlier evaluation is busy; else the busy flag is set, the ticker noted, the exit or
  the entry evaluated, and the flag reset in \<^verbatim>\<open>finally\<close>.
\<close>

definition checkKalshi1PolyStrategy ::
  "config \<Rightarrow> DualMarketPrices \<Rightarrow> k1_world \<Rightarrow> k1_state \<Rightarrow> ledger_fs
     \<Rightarrow> k1_state \<times> ledger_fs \<times> event list" where
  "checkKalshi1PolyStrategy cfg p w st fs =
     (case (kalshi p, polymarket p) of
        (Some k, Some pm) \<Rightarrow>
          if strategyBusy st then (st, fs, [])
          else
            let st0 = onNewTicker (kalshiTicker p) (st\<lparr>strategyBusy := True\<rparr>)
            in (case (case position st0 of
                        Some pos \<Rightarrow> k1_exit cfg w (kalshiTicker p) k pm pos st0 fs
                      | None \<Rightarrow> k1_try_entry cfg w (kalshiTicker p) k pm st0 fs) of
                  (st', fs', ev) \<Rightarrow> (st'\<lparr>strategyBusy := False\<rparr>, fs', ev))
      | _ \<Rightarrow> (st, fs, []))"

section \<open>The Cross-Venue Arbitrage strategy (monitor/arb.ts)\<close>

definition FOK_RETRY_DELAY_MS :: nat where "FOK_RETRY_DELAY_MS = 200"

text \<open>
  \<^verbatim>\<open>retryPolymarketFokAfter200ms\<close>: wait, read the best ask, place the order again at
  \<^verbatim>\<open>Math.min(1, currentAsk + ARB_PRICE_BUFFER)\<close>, or at 0.99 when no ask is available.
\<close>

definition arb_retry_price :: "config \<Rightarrow> jsnum option \<Rightarrow> jsnum" where
  "arb_retry_price cfg currentAsk =
     (case currentAsk of
        Some a \<Rightarrow> Math_min (Num 1) (js_add a (ARB_PRICE_BUFFER cfg))
      | None \<Rightarrow> Num (99 / 100))"

definition retryPolymarketFokAfter200ms ::
  "config \<Rightarrow> string \<Rightarrow> jsnum \<Rightarrow> PlacePolymarketOrderOptions \<Rightarrow> jsnum option \<Rightarrow> clob_reply
     \<Rightarrow> ledger_fs \<Rightarrow> PlacePolyResult \<times> ledger_fs \<times> event list" where
  "retryPolymarketFokAfter200ms cfg tok sz options currentAsk reply fs =
     (case placePolymarketOrder cfg tok (arb_retry_price cfg currentAsk) sz options reply fs of
        (r, fs', ev) \<Rightarrow>
          (r, fs', [Sleep FOK_RETRY_DELAY_MS, Log (ArbFokRetry (arb_retry_price cfg currentAsk))] @ ev))"

record OpenArbPosition =
  arb_leg :: leg
  kalshiSide :: kside
  kalshiCount :: jsnum
  polyTokenId :: string
  polySize :: jsnum

text \<open>The module-level sets and map of the strategy.\<close>

record arb_state =
  upArbDoneTickers :: "string set"
  downArbDoneTickers :: "string set"
  openArbPositions :: "string \<rightharpoonup> OpenArbPosition"

text \<open>What the venues answer during one evaluation.\<close>

record arb_world =
  kalshi_buy_reply :: kalshi_reply
  poly_buy_reply :: clob_reply
  retry_best_ask :: "jsnum option"
  poly_retry_reply :: clob_reply
  kalshi_sell_reply :: kalshi_reply
  poly_sell_reply :: clob_reply

definition inRange :: "config \<Rightarrow> jsnum \<Rightarrow> bool" where
  "inRange cfg sm =
     (isFinite sm \<and> js_ge sm (ARB_SUM_LOW cfg) \<and> js_lt sm (ARB_SUM_THRESHOLD cfg))"

text \<open>
  \<^verbatim>\<open>exitArbPosition\<close>: the position is deleted first, then both sells are issued; a failed
  sell is logged and nothing more is done.
\<close>

definition exitArbPosition ::
  "config \<Rightarrow> arb_world \<Rightarrow> string \<Rightarrow> OpenArbPosition \<Rightarrow> arb_state \<Rightarrow> arb_state \<times> event list" where
  "exitArbPosition cfg w ticker pos st =
     (case placeSellOrder cfg ticker (kalshiSide pos) (kalshiCount pos) True (kalshi_sell_reply w) of
        (kRes, kev) \<Rightarrow>
          (case sellPolymarketOrder cfg (polyTokenId pos) (polySize pos)
                  \<lparr>forcePlace = True, opt_conditionId = None\<rparr> (poly_sell_reply w) of
             (pRes, pev) \<Rightarrow>
               (st\<lparr>openArbPositions := (openArbPositions st)(ticker := None)\<rparr>,
                [Log (ArbExiting (arb_leg pos))] @ kev @ pev
                @ (case kRes of KError e \<Rightarrow> [Log (ArbExitKalshiFailed e)] | _ \<Rightarrow> [])
                @ (case pRes of Error e \<Rightarrow> [Log (ArbExitPolyFailed e)] | _ \<Rightarrow> []))))"

fun kside_of :: "leg \<Rightarrow> kside" where
  "kside_of UP = Yes"
| "kside_of DOWN = No"

fun leg_done :: "leg \<Rightarrow> arb_state \<Rightarrow> string set" where
  "leg_done UP st = upArbDoneTickers st"
| "leg_done DOWN st = downArbDoneTickers st"

fun mark_done :: "leg \<Rightarrow> string \<Rightarrow> arb_state \<Rightarrow> arb_state" where
  "mark_done UP t st = st\<lparr>upArbDoneTickers := insert t (upArbDoneTickers st)\<rparr>"
| "mark_done DOWN t st = st\<lparr>downArbDoneTickers := insert t (downArbDoneTickers st)\<rparr>"

text \<open>
  The Polymarket side of an entry: the order, and when it fails with a message that
  \<^verbatim>\<open>isFokNotFilledError\<close> accepts, the one retry. Any failure is logged first.
\<close>

definition arb_poly_leg ::
  "config \<Rightarrow> arb_world \<Rightarrow> string \<Rightarrow> jsnum \<Rightarrow> jsnum \<Rightarrow> PlacePolymarketOrderOptions \<Rightarrow> ledger_fs
     \<Rightarrow> PlacePolyResult \<times> ledger_fs \<times> event list" where
  "arb_poly_leg cfg w tok polyPrice polySz options fs =
     (case placePolymarketOrder cfg tok polyPrice polySz options (poly_buy_reply w) fs of
        (Error e, fs1, pev) \<Rightarrow>
          (if isFokNotFilledError e
           then (case retryPolymarketFokAfter200ms cfg tok polySz options
                         (retry_best_ask w) (poly_retry_reply w) fs1 of
                   (r2, fs2, rev2) \<Rightarrow> (r2, fs2, pev @ [Log (ArbPolyFailed e)] @ rev2))
           else (Error e, fs1, pev @ [Log (ArbPolyFailed e)]))
      | (polyResult, fs1, pev) \<Rightarrow> (polyResult, fs1, pev))"

text \<open>
  The entry block of one leg, after the leg's flag has been found unset. The source writes
  it twice: for UP with Kalshi yes at the up ask and the Polymarket down token at the
  down ask, for DOWN with Kalshi no at the down ask and the up token at the up ask.
  \<open>kAsk\<close> is the Kalshi ask in dollars, \<open>polyAsk\<close> the Polymarket ask of the opposite
  side, \<open>tok\<close> its token. Both orders are sent before either result is read; the
  opportunity line is logged from a \<^verbatim>\<open>setImmediate\<close> callback in live mode. The position
  is stored when the Kalshi result is no error and the last Polymarket result is an
  order.
\<close>

definition arb_enter ::
  "config \<Rightarrow> arb_world \<Rightarrow> string \<Rightarrow> leg \<Rightarrow> jsnum \<Rightarrow> jsnum \<Rightarrow> string \<Rightarrow> string \<Rightarrow> arb_state \<Rightarrow> ledger_fs
     \<Rightarrow> arb_state \<times> ledger_fs \<times> event list" where
  "arb_enter cfg w ticker lg kAsk polyAsk tok cid st fs =
     (let st1 = mark_done lg ticker st;
          kalshiContracts = Math_max (ARB_KALSHI_MIN cfg) (Math_round (ARB_SIZE cfg));
          kalshiPriceCents = Math_round (js_mul (js_add kAsk (ARB_PRICE_BUFFER cfg)) (Num 100));
          polyPrice = Math_min (Num 1) (js_add polyAsk (ARB_PRICE_BUFFER cfg));
          polySz = Math_max (ARB_POLY_MIN cfg)
                     (Math_max (ARB_SIZE cfg) (Math_ceil (js_div (min_usd cfg) polyPrice)))
      in if \<not> ARB_DRY_RUN cfg then
           (case placeOrder cfg ticker (kside_of lg) kalshiContracts kalshiPriceCents True
                   (kalshi_buy_reply w) of
              (kalshiResult, kev) \<Rightarrow>
                (case arb_poly_leg cfg w tok polyPrice polySz
                        \<lparr>forcePlace = False, opt_conditionId = Some cid\<rparr> fs of
                   (polyFinal, fs2, pev) \<Rightarrow>
                     ((if \<not> k_is_error kalshiResult \<and> is_order polyFinal
                       then st1\<lparr>openArbPositions := (openArbPositions st1)(ticker \<mapsto>
                                  \<lparr>arb_leg = lg, kalshiSide = kside_of lg,
                                   kalshiCount = kalshiContracts, polyTokenId = tok,
                                   polySize = polySz\<rparr>)\<rparr>
                       else st1),
                      fs2,
                      [Log (ArbOpportunity lg ticker)] @ kev @ pev
                      @ (case kalshiResult of KError e \<Rightarrow> [Log (ArbKalshiFailed e)] | _ \<Rightarrow> []))))
         else (st1, fs, [Log (ArbOpportunity lg ticker)]))"

text \<open>
  The exit test at the top of \<^verbatim>\<open>checkArbAndPlaceOrders\<close>: a position is open for the
  ticker and the sum of its leg is finite and below \<^verbatim>\<open>ARB_SUM_LOW\<close>.
\<close>

definition arb_exit_due :: "config \<Rightarrow> arb_state \<Rightarrow> string \<Rightarrow> jsnum \<Rightarrow> jsnum \<Rightarrow> bool" where
  "arb_exit_due cfg st ticker sumUp sumDown =
     (case openArbPositions st ticker of
        None \<Rightarrow> False
      | Some pos \<Rightarrow>
          let sm = (if arb_leg pos = UP then sumUp else sumDown)
          in isFinite sm \<and> js_lt sm (ARB_SUM_LOW cfg))"

definition sum_up :: "MarketPrices \<Rightarrow> PolymarketPrices \<Rightarrow> jsnum" where
  "sum_up k pm = js_add (js_div (upAskCents k) (Num 100)) (downAsk pm)"

definition sum_down :: "MarketPrices \<Rightarrow> PolymarketPrices \<Rightarrow> jsnum" where
  "sum_down k pm = js_add (js_div (downAskCents k) (Num 100)) (upAsk pm)"

definition checkArbAndPlaceOrders ::
  "config \<Rightarrow> DualMarketPrices \<Rightarrow> arb_world \<Rightarrow> arb_state \<Rightarrow> ledger_fs
     \<Rightarrow> arb_state \<times> ledger_fs \<times> event list" where
  "checkArbAndPlaceOrders cfg p w st fs =
     (case (kalshi p, polymarket p) of
        (Some k, Some pm) \<Rightarrow>
          let ticker = kalshiTicker p;
              kUp = js_div (upAskCents k) (Num 100);
              kDown = js_div (downAskCents k) (Num 100);
              sumUp = sum_up k pm;
              sumDown = sum_down k pm
          in if arb_exit_due cfg st ticker sumUp sumDown
             then (case exitArbPosition cfg w ticker (the (openArbPositions st ticker)) st of
                     (st', ev) \<Rightarrow> (st', fs, ev))
             else if inRange cfg sumUp
             then (if ticker \<in> upArbDoneTickers st then (st, fs, [])
                   else arb_enter cfg w ticker UP kUp (downAsk pm) (downTokenId pm)
                          (conditionId pm) st fs)
             else if inRange cfg sumDown
             then (if ticker \<in> downArbDoneTickers st then (st, fs, [])
                   else arb_enter cfg w ticker DOWN kDown (upAsk pm) (upTokenId pm)
                          (conditionId pm) st fs)
             else (st, fs, [])
      | _ \<Rightarrow> (st, fs, []))"


text \<open>The marks of an entry attempt of a leg for a ticker: its opportunity line, its Kalshi order.\<close>

fun entry_logged :: "leg \<Rightarrow> string \<Rightarrow> event \<Rightarrow> bool" where
  "entry_logged lg t (Log (ArbOpportunity lg' t')) = (lg' = lg \<and> t' = t)"
| "entry_logged lg t _ = False"

fun entry_ordered :: "leg \<Rightarrow> string \<Rightarrow> event \<Rightarrow> bool" where
  "entry_ordered lg t (KalshiBuy t' sd c pr) = (t' = t \<and> sd = kside_of lg)"
| "entry_ordered lg t _ = False"

fun is_poly_buy :: "event \<Rightarrow> bool" where
  "is_poly_buy (PolyBuy tok pr sz) = True"
| "is_poly_buy _ = False"

fun is_sell :: "event \<Rightarrow> bool" where
  "is_sell (PolySell tok sz) = True"
| "is_sell (KalshiSell t sd c) = True"
| "is_sell _ = False"

fun is_retry_log :: "event \<Rightarrow> bool" where
  "is_retry_log (Log (ArbFokRetry pr)) = True"
| "is_retry_log (Log (K1FokRetry pr)) = True"
| "is_retry_log _ = False"

definition arb_fresh :: arb_state where
  "arb_fresh = \<lparr>upArbDoneTickers = {}, downArbDoneTickers = {}, openArbPositions = Map.empty\<rparr>"

definition arb_world_ok :: arb_world where
  "arb_world_ok =
     \<lparr>kalshi_buy_reply = KOrder (Some ''k-1''), poly_buy_reply = Reply (Some ''p-1'') None,
      retry_best_ask = Some (Num (31 / 100)), poly_retry_reply = Reply (Some ''p-2'') None,
      kalshi_sell_reply = KOrder (Some ''k-2''), poly_sell_reply = Reply (Some ''p-3'') None\<rparr>"

section \<open>The single-instance lock (core/monitor-lock.ts)\<close>

text \<open>
  \<^verbatim>\<open>String.prototype.trim\<close> and \<^verbatim>\<open>parseInt(s, 10)\<close> on strings of bytes: white space is
  skipped, an optional sign is read, then the longest run of decimal digits; with no digit
  the result is \<^verbatim>\<open>NaN\<close>, here \<open>None\<close>. The value is an unbounded integer (a run of digits too
  long for a double is not modelled).
\<close>

definition is_space :: "char \<Rightarrow> bool" where
  "is_space c = (let n = (of_char c :: nat) in (9 \<le> n \<and> n \<le> 13) \<or> n = 32 \<or> n = 160)"

definition is_digit :: "char \<Rightarrow> bool" where
  "is_digit c = (let n = (of_char c :: nat) in 48 \<le> n \<and> n \<le> 57)"

definition js_trim :: "string \<Rightarrow> string" where
  "js_trim s = rev (dropWhile is_space (rev (dropWhile is_space s)))"

definition digits_value :: "string \<Rightarrow> nat" where
  "digits_value ds = foldl (\<lambda>acc c. acc * 10 + (of_char c - 48)) 0 ds"

definition parseInt10 :: "string \<Rightarrow> int option" where
  "parseInt10 s =
     (let t = dropWhile is_space s;
          neg = (t \<noteq> [] \<and> hd t = CHR ''-'');
          rest = (if t \<noteq> [] \<and> (hd t = CHR ''-'' \<or> hd t = CHR ''+'') then tl t else t);
          ds = takeWhile is_digit rest
      in if ds = [] then None
         else Some (if neg then - int (digits_value ds) else int (digits_value ds)))"

text \<open>\<^verbatim>\<open>String(pid)\<close>: the decimal digits of an integer.\<close>

function nat_digits :: "nat \<Rightarrow> string" where
  "nat_digits n =
     (if n < 10 then [char_of (48 + n)] else nat_digits (n div 10) @ [char_of (48 + n mod 10)])"
  by pat_completeness auto
termination
  by (relation "measure (\<lambda>n. n)") auto

declare nat_digits.simps [simp del]

definition js_String :: "int \<Rightarrow> string" where
  "js_String i = (if i < 0 then CHR ''-'' # nat_digits (nat (- i)) else nat_digits (nat i))"

text \<open>
  The process and the file system as the lock code sees them: the content of
  \<^verbatim>\<open>logs/monitor.lock\<close> (\<open>None\<close> when there is no readable file), the caller's pid, the pids
  for which \<^verbatim>\<open>process.kill(pid, 0)\<close> succeeds, whether \<^verbatim>\<open>unlinkSync\<close> throws, whether sending
  SIGTERM throws, whether a delivered SIGTERM has ended its target by the time it is
  looked at again, the error code (other than \<^verbatim>\<open>EEXIST\<close>) of the exclusive create when no
  file is in the way, and whether the plain write throws.
\<close>

record lock_env =
  lock_file :: "string option"
  own_pid :: int
  running :: "int set"
  unlink_fails :: bool
  kill_fails :: bool
  term_stops :: bool
  excl_write_error :: "string option"
  write_fails :: bool

datatype lock_event = Sigterm int | AlreadyRunning int | LockFileError

datatype lock_outcome = Acquired | Exited nat | Raised string

definition isPidRunning :: "lock_env \<Rightarrow> int \<Rightarrow> bool" where
  "isPidRunning env pid = (pid \<in> running env)"

text \<open>\<^verbatim>\<open>try { fs.unlinkSync(LOCK_FILE); } catch { }\<close>\<close>

definition unlink_lock :: "lock_env \<Rightarrow> lock_env" where
  "unlink_lock env = (if unlink_fails env then env else env\<lparr>lock_file := None\<rparr>)"

text \<open>\<^verbatim>\<open>try { process.kill(existingPid, "SIGTERM"); } catch { }\<close>\<close>

definition send_sigterm :: "lock_env \<Rightarrow> int \<Rightarrow> lock_env \<times> lock_event list" where
  "send_sigterm env pid =
     (if kill_fails env then (env, [])
      else ((if term_stops env then env\<lparr>running := running env - {pid}\<rparr> else env), [Sigterm pid]))"

definition killExistingAndRemoveLock :: "lock_env \<Rightarrow> lock_env \<times> lock_event list" where
  "killExistingAndRemoveLock env =
     (case lock_file env of
        None \<Rightarrow> (env, [])
      | Some content \<Rightarrow>
          (case parseInt10 (js_trim content) of
             None \<Rightarrow> (env, [])
           | Some existingPid \<Rightarrow>
               if existingPid = own_pid env then (unlink_lock env, [])
               else
                 (case (if isPidRunning env existingPid then send_sigterm env existingPid
                        else (env, [])) of
                    (env1, ev) \<Rightarrow> (unlink_lock env1, ev))))"

text \<open>
  \<^verbatim>\<open>acquireMonitorLock\<close>: take over, then create the file exclusively. With no file in
  the way the create succeeds or throws its error, which is not \<^verbatim>\<open>EEXIST\<close> and is thrown
  on. With the file still in the way the create fails with \<^verbatim>\<open>EEXIST\<close>; the file is read
  again, and the process exits with status 1 if it names a running process, else the
  file is overwritten, with an exit with status 1 if that write fails.
\<close>

definition acquireMonitorLock :: "lock_env \<Rightarrow> lock_env \<times> lock_event list \<times> lock_outcome" where
  "acquireMonitorLock env =
     (case killExistingAndRemoveLock env of
        (env1, ev1) \<Rightarrow>
          let content = js_String (own_pid env1)
          in (case lock_file env1 of
                None \<Rightarrow>
                  (case excl_write_error env1 of
                     None \<Rightarrow> (env1\<lparr>lock_file := Some content\<rparr>, ev1, Acquired)
                   | Some code \<Rightarrow> (env1, ev1, Raised code))
              | Some c \<Rightarrow>
                  (case parseInt10 (js_trim c) of
                     Some existingPid \<Rightarrow>
                       if isPidRunning env1 existingPid
                       then (env1, ev1 @ [AlreadyRunning existingPid], Exited 1)
                       else if write_fails env1 then (env1, ev1 @ [LockFileError], Exited 1)
                       else (env1\<lparr>lock_file := Some content\<rparr>, ev1, Acquired)
                   | None \<Rightarrow>
                       if write_fails env1 then (env1, ev1 @ [LockFileError], Exited 1)
                       else (env1\<lparr>lock_file := Some content\<rparr>, ev1, Acquired))))"

section \<open>The balance check at start (monitor/run.ts, monitor/run-kalshi-1-poly.ts)\<close>

datatype start_outcome = Continues | Exits nat | Rejects

text \<open>
  \<^verbatim>\<open>!kalshiOk || !polyOk\<close> with \<^verbatim>\<open>minCents = Math.round(MIN_BALANCE_USD * 100)\<close>; a
  Polymarket balance of \<^verbatim>\<open>null\<close> (not configured, or the query failed) counts as enough.
\<close>

definition balance_short :: "config \<Rightarrow> jsnum \<Rightarrow> jsnum option \<Rightarrow> bool" where
  "balance_short cfg kalshiCents polyUsd =
     (let minCents = Math_round (js_mul (MIN_BALANCE_USD cfg) (Num 100));
          kalshiOk = js_ge kalshiCents minCents;
          polyOk = (case polyUsd of None \<Rightarrow> True | Some u \<Rightarrow> js_ge u (MIN_BALANCE_USD cfg))
      in \<not> kalshiOk \<or> \<not> polyOk)"

text \<open>
  \<^verbatim>\<open>checkBalancesOrExit\<close> of the arbitrage monitor (monitor/run.ts): the shortfall is
  reported and the process exits with status 1. \<open>kalshiCents\<close> is \<open>None\<close> when the Kalshi
  balance query rejects, and then the function rejects.
\<close>

definition checkBalancesOrExit ::
  "config \<Rightarrow> jsnum option \<Rightarrow> jsnum option \<Rightarrow> event list \<times> start_outcome" where
  "checkBalancesOrExit cfg kalshiCents polyUsd =
     (case kalshiCents of
        None \<Rightarrow> ([], Rejects)
      | Some kc \<Rightarrow>
          if balance_short cfg kc polyUsd then ([Log BalanceBelowMinimum], Exits 1)
          else ([], Continues))"

text \<open>
  \<^verbatim>\<open>checkBalancesOrExit\<close> of the Follow-Confidence entry point: the same test and the same
  report, with \<^verbatim>\<open>process.exit(1)\<close> commented out.
\<close>

definition checkBalancesOrExit_kalshi1poly ::
  "config \<Rightarrow> jsnum option \<Rightarrow> jsnum option \<Rightarrow> event list \<times> start_outcome" where
  "checkBalancesOrExit_kalshi1poly cfg kalshiCents polyUsd =
     (case kalshiCents of
        None \<Rightarrow> ([], Rejects)
      | Some kc \<Rightarrow>
          if balance_short cfg kc polyUsd then ([Log BalanceBelowMinimum], Continues)
          else ([], Continues))"

section \<open>Predicates used in the statements\<close>

text \<open>Both Polymarket credentials are set, so that orders go to the CLOB client.\<close>

definition configured :: "config \<Rightarrow> bool" where
  "configured cfg = (POLYMARKET_PRIVATE_KEY cfg \<noteq> [] \<and> POLYMARKET_PROXY cfg \<noteq> [])"

text \<open>The CLOB's answer to an order is a failure: it threw, or the reply is read as one.\<close>

fun reply_fails :: "clob_reply \<Rightarrow> bool" where
  "reply_fails (Reply orderId errMsg) = reply_failed orderId errMsg"
| "reply_fails _ = True"

text \<open>\<^verbatim>\<open>cycleDoneTicker = ticker; position = null;\<close>\<close>

definition closed_out :: "string \<Rightarrow> k1_state \<Rightarrow> k1_state" where
  "closed_out ticker st = st\<lparr>cycleDoneTicker := Some ticker, position := None\<rparr>"

section \<open>Concrete inputs\<close>

text \<open>The defaults of core/config.ts, with both Polymarket credentials set.\<close>

definition default_config :: config where
  "default_config =
     \<lparr>POLYMARKET_PRIVATE_KEY = ''0xkey'', POLYMARKET_PROXY = ''0xproxy'',
      POLYMARKET_TICK_SIZE = ''0.01'', POLYMARKET_MIN_USD = Num 1,
      POLY_BUY_LIMIT_BUFFER = Num (1 / 100), BOT_DRY_RUN = False, ARB_DRY_RUN = False,
      ARB_SUM_THRESHOLD = Num (92 / 100), ARB_SUM_LOW = Num (75 / 100),
      ARB_PRICE_BUFFER = Num (2 / 100), ARB_SIZE = Num 5, ARB_KALSHI_MIN = Num 5,
      ARB_POLY_MIN = Num 5, POLY_BUY_MIN = Num (8 / 10), POLY_SELL_BELOW = Num (7 / 10),
      POLY_SELL_RANGE_BUFFER = Num (15 / 100), KALSHI_1_POLY_DRY_RUN = False,
      KALSHI_1_POLY_SIZE = Num 5, MIN_BALANCE_USD = Num 5\<rparr>"

text \<open>A snapshot of one market: Kalshi's two asks in cents, Polymarket's two asks.\<close>

definition snapshot :: "jsnum \<Rightarrow> jsnum \<Rightarrow> jsnum \<Rightarrow> jsnum \<Rightarrow> DualMarketPrices" where
  "snapshot ku kd pu pd =
     \<lparr>kalshiTicker = ''KXBTC15M-1'',
      kalshi = Some \<lparr>upAskCents = ku, downAskCents = kd\<rparr>,
      polymarket = Some \<lparr>upAsk = pu, downAsk = pd, upTokenId = ''tok-up'',
                         downTokenId = ''tok-down'', conditionId = ''0xc0nd''\<rparr>\<rparr>"

text \<open>The strategy's variables after the market has been seen once, nothing bought.\<close>

definition k1_seen :: k1_state where
  "k1_seen =
     \<lparr>position = None, lastTicker = Some ''KXBTC15M-1'', entryAttemptedTicker = None,
      cycleDoneTicker = None, seenKalshiUp1 = False, seenKalshiDown1 = False,
      strategyBusy = False, seenTickers = {''KXBTC15M-1''}, skippedTickers = {}\<rparr>"

definition up_position :: Position where
  "up_position =
     \<lparr>pos_side = UP, pos_tokenId = ''tok-up'', pos_size = Num 5, pos_conditionId = ''0xc0nd''\<rparr>"

definition k1_holding :: k1_state where
  "k1_holding = k1_seen\<lparr>position := Some up_position, seenKalshiUp1 := True\<rparr>"

text \<open>A world in which every order is accepted, and one in which every sell throws.\<close>

definition world_ok :: k1_world where
  "world_ok =
     \<lparr>minsPast = Num 2, cachedProxyBalanceUsd = None,
      buy_reply = Reply (Some ''order-1'') None, buy_best_ask = Some (Num (82 / 100)),
      buy_retry_reply = Reply (Some ''order-2'') None, after_buy_balance = Num 5,
      sell_balance = (\<lambda>_. Num 5), sell_reply = (\<lambda>_. Reply (Some ''order-3'') None)\<rparr>"

definition world_sell_fails :: k1_world where
  "world_sell_fails = world_ok\<lparr>sell_reply := (\<lambda>_. Threw ''not enough balance'')\<rparr>"

definition ledger_empty :: ledger_fs where
  "ledger_empty = \<lparr>holdings_doc = None, holdings_writable = True\<rparr>"

definition ledger_held :: ledger_fs where
  "ledger_held =
     \<lparr>holdings_doc = Some [''0xc0nd'' \<mapsto> [''tok-up'' \<mapsto> Num 10]], holdings_writable = True\<rparr>"

text \<open>
  Two evaluations in a row: Kalshi UP at 100 cents with Polymarket UP at 0.82 (a buy),
  then Polymarket UP at 0.50 (a sell).
\<close>

definition buy_tick :: "k1_state \<times> ledger_fs \<times> event list" where
  "buy_tick =
     checkKalshi1PolyStrategy default_config
       (snapshot (Num 100) (Num 1) (Num (82 / 100)) (Num (19 / 100))) world_ok k1_seen ledger_empty"

definition sell_tick :: "k1_state \<times> ledger_fs \<times> event list" where
  "sell_tick =
     checkKalshi1PolyStrategy default_config
       (snapshot (Num 100) (Num 1) (Num (50 / 100)) (Num (51 / 100))) world_ok
       (fst buy_tick) (fst (snd buy_tick))"

text \<open>The same exit when every sell attempt fails.\<close>

definition failed_exit :: "k1_state \<times> ledger_fs \<times> event list" where
  "failed_exit =
     checkKalshi1PolyStrategy default_config
       (snapshot (Num 100) (Num 1) (Num (50 / 100)) (Num (51 / 100))) world_sell_fails
       k1_holding ledger_held"

definition sold_exit :: "k1_state \<times> ledger_fs \<times> event list" where
  "sold_exit =
     checkKalshi1PolyStrategy default_config
       (snapshot (Num 100) (Num 1) (Num (50 / 100)) (Num (51 / 100))) world_ok
       k1_holding ledger_held"



text \<open>
  Snapshots for the arbitrage strategy: Kalshi UP at 55 cents with Polymarket DOWN at 0.30
  (UP sum 0.85, DOWN sum 1.19), the same with the sides swapped (UP sum 1.19, DOWN sum
  0.85), and all four asks at 0.40 (both sums 0.80).
\<close>

definition band_snapshot :: DualMarketPrices where
  "band_snapshot = snapshot (Num 55) (Num 47) (Num (72 / 100)) (Num (30 / 100))"




definition arb_world_poly_fails :: arb_world where
  "arb_world_poly_fails = arb_world_ok\<lparr>poly_buy_reply := Threw ''not enough balance''\<rparr>"







text \<open>
  A lock file left by process 4242, which is running; the caller is process 100. In the
  second environment the file cannot be removed and the old process outlives its signal.
\<close>

definition lock_held :: lock_env where
  "lock_held =
     \<lparr>lock_file = Some ''4242'', own_pid = 100, running = {4242, 100}, unlink_fails = False,
      kill_fails = False, term_stops = True, excl_write_error = None, write_fails = False\<rparr>"

definition lock_stuck :: lock_env where
  "lock_stuck = lock_held\<lparr>unlink_fails := True, term_stops := False\<rparr>"

section \<open>The Follow-Confidence strategy: lemmas\<close>

lemma loadHoldings_clear:
  "holdings_writable fs \<Longrightarrow> loadHoldings (clearMarketHoldings c fs) c = None"
  by (simp add: clearMarketHoldings_def saveHoldings_def loadHoldings_def Let_def
      split: option.splits)

lemma floor_cents_ge:
  "js_ge b (Num (1 / 100)) \<Longrightarrow> js_ge (floor_cents b) (Num (1 / 100))"
proof (cases b)
  case (Num x)
  assume "js_ge b (Num (1 / 100))"
  with Num have "1 \<le> x * 100" by (simp add: js_ge_def)
  then have "1 \<le> \<lfloor>x * 100\<rfloor>" by linarith
  then have "(1::rat) \<le> of_int \<lfloor>x * 100\<rfloor>" by linarith
  then show ?thesis using Num by (simp add: floor_cents_def js_ge_def)
qed (simp_all add: floor_cents_def js_ge_def inf_of_sign_def)

lemma sell_size_cases:
  "sell_size b s = NaN \<or> js_ge (sell_size b s) (Num (1 / 100))"
proof (cases "js_ge b (Num (1 / 100))")
  case True
  then show ?thesis by (simp add: sell_size_def floor_cents_ge)
next
  case False
  then show ?thesis
    by (cases "floor_cents (js_sub s (Num (2 / 100)))")
       (simp_all add: sell_size_def Math_max_def js_ge_def)
qed

lemma sell_size_not_small: "\<not> js_lt (sell_size b s) (Num (1 / 100))"
  using sell_size_cases [of b s]
  by (cases "sell_size b s") (auto simp: js_ge_def)

lemma sell_size_not_le0: "\<not> js_le (sell_size b s) (Num 0)"
  using sell_size_cases [of b s]
  by (cases "sell_size b s") (auto simp: js_ge_def)

lemma sell_error:
  "configured cfg \<Longrightarrow> forcePlace opts \<Longrightarrow> \<not> js_le sz (Num 0) \<Longrightarrow> reply_fails r \<Longrightarrow>
   \<exists>e ev. sellPolymarketOrder cfg tok sz opts r = (Error e, ev)"
  by (cases r) (auto simp: sellPolymarketOrder_def configured_def)

lemma sell_ok:
  "configured cfg \<Longrightarrow> forcePlace opts \<Longrightarrow> \<not> js_le sz (Num 0) \<Longrightarrow> \<not> reply_fails r \<Longrightarrow>
   \<exists>oid ev. sellPolymarketOrder cfg tok sz opts r = (OrderId oid, ev)"
  by (cases r) (auto simp: sellPolymarketOrder_def configured_def)

lemma sell_loop_abandon:
  assumes "configured cfg" "position st = Some pos" "1 \<le> a" "a \<le> SELL_MAX_ATTEMPTS"
    and "\<forall>i. a \<le> i \<and> i \<le> SELL_MAX_ATTEMPTS \<longrightarrow> reply_fails (sell_reply w i)"
  shows "\<exists>ev. sell_loop cfg w ticker a st fs = (closed_out ticker st, fs, ev) \<and> Log K1Abandon \<in> set ev"
  using assms
proof (induction "SELL_MAX_ATTEMPTS - a" arbitrary: a)
  case 0
  then have a: "a = SELL_MAX_ATTEMPTS" by simp
  obtain e ev1 where "sellPolymarketOrder cfg (pos_tokenId pos)
      (sell_size (sell_balance w a) (pos_size pos))
      \<lparr>forcePlace = True, opt_conditionId = Some (pos_conditionId pos)\<rparr> (sell_reply w a) = (Error e, ev1)"
    using sell_error [OF "0.prems"(1) _ sell_size_not_le0, of _ "sell_reply w a"] "0.prems" by force
  then show ?case using "0.prems" a
    by (subst sell_loop.simps) (simp add: Let_def sell_size_not_small closed_out_def)
next
  case (Suc n)
  then have lt: "a < SELL_MAX_ATTEMPTS" by simp
  obtain e ev1 where "sellPolymarketOrder cfg (pos_tokenId pos)
      (sell_size (sell_balance w a) (pos_size pos))
      \<lparr>forcePlace = True, opt_conditionId = Some (pos_conditionId pos)\<rparr> (sell_reply w a) = (Error e, ev1)"
    using sell_error [OF Suc.prems(1) _ sell_size_not_le0, of _ "sell_reply w a"] Suc.prems by force
  moreover have "\<exists>ev. sell_loop cfg w ticker (Suc a) st fs = (closed_out ticker st, fs, ev) \<and> Log K1Abandon \<in> set ev"
    using Suc.hyps(1) [of "Suc a"] Suc.hyps(2) Suc.prems lt by auto
  ultimately show ?case using Suc.prems lt
    by (subst sell_loop.simps) (auto simp add: Let_def sell_size_not_small)
qed


lemma sell_loop_success:
  assumes "configured cfg" "position st = Some pos" "1 \<le> a" "a \<le> k" "k \<le> SELL_MAX_ATTEMPTS"
    and "\<forall>i. a \<le> i \<and> i < k \<longrightarrow> reply_fails (sell_reply w i)"
    and "\<not> reply_fails (sell_reply w k)"
  shows "\<exists>ev. sell_loop cfg w ticker a st fs =
           (closed_out ticker st, clearMarketHoldings (pos_conditionId pos) fs, ev)
         \<and> (\<exists>sz. Log (K1SellOk sz) \<in> set ev)"
  using assms
proof (induction "k - a" arbitrary: a)
  case 0
  then have a: "a = k" by simp
  obtain oid ev1 where "sellPolymarketOrder cfg (pos_tokenId pos)
      (sell_size (sell_balance w a) (pos_size pos))
      \<lparr>forcePlace = True, opt_conditionId = Some (pos_conditionId pos)\<rparr> (sell_reply w a) = (OrderId oid, ev1)"
    using sell_ok [OF "0.prems"(1) _ sell_size_not_le0, of _ "sell_reply w a"] "0.prems" a by force
  then show ?case using "0.prems" a
    by (subst sell_loop.simps) (auto simp add: Let_def sell_size_not_small closed_out_def)
next
  case (Suc n)
  then have lt: "a < k" by simp
  obtain e ev1 where "sellPolymarketOrder cfg (pos_tokenId pos)
      (sell_size (sell_balance w a) (pos_size pos))
      \<lparr>forcePlace = True, opt_conditionId = Some (pos_conditionId pos)\<rparr> (sell_reply w a) = (Error e, ev1)"
    using sell_error [OF Suc.prems(1) _ sell_size_not_le0, of _ "sell_reply w a"] Suc.prems lt by force
  moreover have "\<exists>ev. sell_loop cfg w ticker (Suc a) st fs =
           (closed_out ticker st, clearMarketHoldings (pos_conditionId pos) fs, ev)
         \<and> (\<exists>sz. Log (K1SellOk sz) \<in> set ev)"
    using Suc.hyps(1) [of "Suc a"] Suc.hyps(2) Suc.prems lt by auto
  ultimately show ?case using Suc.prems lt
    by (subst sell_loop.simps) (auto simp add: Let_def sell_size_not_small)
qed

lemma sell_events_no_ok: "sellPolymarketOrder cfg tok sz opts r = (res, ev) \<Longrightarrow> Log (K1SellOk x) \<notin> set ev"
  by (cases r) (auto simp: sellPolymarketOrder_def split: if_splits)

lemma sell_loop_sold:
  "sell_loop cfg w ticker a st fs = (st', fs', ev) \<Longrightarrow> position st = Some pos \<Longrightarrow>
   Log (K1SellOk x) \<in> set ev \<Longrightarrow>
   st' = closed_out ticker st \<and> fs' = clearMarketHoldings (pos_conditionId pos) fs"
proof (induction "Suc SELL_MAX_ATTEMPTS - a" arbitrary: a st' fs' ev)
  case 0
  then show ?case by (subst (asm) sell_loop.simps) simp
next
  case (Suc n)
  then have le: "a \<le> SELL_MAX_ATTEMPTS" by simp
  obtain res ev1 where s: "sellPolymarketOrder cfg (pos_tokenId pos)
      (sell_size (sell_balance w a) (pos_size pos))
      \<lparr>forcePlace = True, opt_conditionId = Some (pos_conditionId pos)\<rparr> (sell_reply w a) = (res, ev1)"
    by (metis surj_pair)
  note no = sell_events_no_ok [OF s]
  obtain st2 fs2 ev2 where r: "sell_loop cfg w ticker (Suc a) st fs = (st2, fs2, ev2)"
    by (metis surj_pair)
  have ih: "Log (K1SellOk x) \<in> set ev2 \<Longrightarrow>
      st2 = closed_out ticker st \<and> fs2 = clearMarketHoldings (pos_conditionId pos) fs"
    using Suc.hyps(1) [of "Suc a", OF _ r Suc.prems(2)] Suc.hyps(2) by simp
  show ?case
  proof (cases res)
    case (OrderId oid)
    then show ?thesis using Suc.prems le s
      by (subst (asm) sell_loop.simps) (auto simp: Let_def sell_size_not_small closed_out_def)
  next
    case (Error e)
    then show ?thesis using Suc.prems le s r no ih
      by (subst (asm) sell_loop.simps)
         (auto simp: Let_def sell_size_not_small split: if_splits)
  next
    case Null
    then show ?thesis using Suc.prems le s r no ih
      by (subst (asm) sell_loop.simps)
         (auto simp: Let_def sell_size_not_small split: if_splits)
  qed
qed


lemma addHolding_qty:
  assumes "holdings_writable fs" "c \<noteq> []" "t \<noteq> []" "\<not> js_le amt (Num 0)"
  shows "ledger_qty (addHolding c t amt fs) c t = js_add (ledger_qty fs c t) amt"
    and "holdings_writable (addHolding c t amt fs)"
  using assms
  by (auto simp: addHolding_def ledger_qty_def getMarketHoldings_def loadHoldings_def
      saveHoldings_def Let_def split: option.splits)

lemma place_ok_fs:
  "placePolymarketOrder cfg tok price sz opts r fs = (OrderId oid, fs1, ev) \<Longrightarrow>
   opt_conditionId opts = Some c \<Longrightarrow> fs1 = addHolding c tok sz fs"
  by (cases r) (auto simp: placePolymarketOrder_def Let_def addHolding_def split: if_splits)

lemma place_not_ok_fs:
  "placePolymarketOrder cfg tok price sz opts r fs = (res, fs1, ev) \<Longrightarrow> \<not> is_order res \<Longrightarrow> fs1 = fs"
  by (cases r) (auto simp: placePolymarketOrder_def Let_def split: if_splits)

lemma place_events_no_ok:
  "placePolymarketOrder cfg tok price sz opts r fs = (res, fs1, ev) \<Longrightarrow> Log (K1SellOk x) \<notin> set ev"
  by (cases r) (auto simp: placePolymarketOrder_def Let_def split: if_splits)

lemma retry_ok_fs:
  assumes "placePolyBuyWithRetry cfg tok price sz opts r1 ask r2 fs = (OrderId oid, fs1, ev)"
    and "opt_conditionId opts = Some c"
  shows "fs1 = addHolding c tok sz fs"
proof -
  obtain a fa ea where p1: "placePolymarketOrder cfg tok price sz opts r1 fs = (a, fa, ea)"
    by (metis surj_pair)
  show ?thesis
  proof (cases a)
    case (Error e)
    then have fa: "fa = fs" using place_not_ok_fs [OF p1] by simp
    show ?thesis
    proof (cases "k1_fok_error e")
      case True
      let ?rp = "k1_retry_price ask"
      obtain b fb eb where p2: "placePolymarketOrder cfg tok ?rp sz opts r2 fs = (b, fb, eb)"
        by (metis surj_pair)
      then have "b = OrderId oid" "fb = fs1" using assms(1) p1 Error True fa
        by (auto simp: placePolyBuyWithRetry_def Let_def)
      then show ?thesis using place_ok_fs [OF _ assms(2)] p2 by simp
    next
      case False
      then show ?thesis using assms(1) p1 Error by (simp add: placePolyBuyWithRetry_def)
    qed
  next
    case (OrderId x)
    then show ?thesis using assms p1 place_ok_fs [OF _ assms(2)]
      by (auto simp: placePolyBuyWithRetry_def)
  next
    case Null
    then show ?thesis using assms p1 by (simp add: placePolyBuyWithRetry_def)
  qed
qed

lemma retry_events_no_ok:
  assumes "placePolyBuyWithRetry cfg tok price sz opts r1 ask r2 fs = (res, fs1, ev)"
  shows "Log (K1SellOk x) \<notin> set ev"
proof -
  obtain a fa ea where p1: "placePolymarketOrder cfg tok price sz opts r1 fs = (a, fa, ea)"
    by (metis surj_pair)
  let ?rp = "k1_retry_price ask"
  obtain b fb eb where p2: "placePolymarketOrder cfg tok ?rp sz opts r2 fa = (b, fb, eb)"
    by (metis surj_pair)
  show ?thesis using assms p1 p2 place_events_no_ok [OF p1] place_events_no_ok [OF p2]
    by (cases a) (auto simp: placePolyBuyWithRetry_def Let_def split: if_splits)
qed

lemma k1_entry_bought:
  assumes "k1_entry cfg w ticker sd tok price c st fs = (st', fs', ev)"
    and "position st = None" "position st' = Some pos"
  shows "pos_conditionId pos = c \<and> pos_tokenId pos = tok
         \<and> fs' = addHolding c tok (entry_size cfg w) (addHolding c tok (entry_size cfg w) fs)"
proof -
  let ?o = "\<lparr>forcePlace = True, opt_conditionId = Some c\<rparr>"
  obtain r f1 e1 where p: "placePolyBuyWithRetry cfg tok price (entry_size cfg w) ?o
      (buy_reply w) (buy_best_ask w) (buy_retry_reply w) fs = (r, f1, e1)"
    by (metis surj_pair)
  show ?thesis
  proof (cases r)
    case (OrderId oid)
    then have "f1 = addHolding c tok (entry_size cfg w) fs" using retry_ok_fs [of _ _ _ _ ?o] p by simp
    then show ?thesis using assms p OrderId
      by (auto simp: k1_entry_def Let_def updatePositionSizeFromBalance_def split: if_splits)
  next
    case (Error e)
    then show ?thesis using assms p by (auto simp: k1_entry_def Let_def split: if_splits)
  next
    case Null
    then show ?thesis using assms p by (auto simp: k1_entry_def Let_def split: if_splits)
  qed
qed

lemma k1_entry_events_no_ok:
  assumes "k1_entry cfg w ticker sd tok price c st fs = (st', fs', ev)"
  shows "Log (K1SellOk x) \<notin> set ev"
proof -
  let ?o = "\<lparr>forcePlace = True, opt_conditionId = Some c\<rparr>"
  obtain r f1 e1 where p: "placePolyBuyWithRetry cfg tok price (entry_size cfg w) ?o
      (buy_reply w) (buy_best_ask w) (buy_retry_reply w) fs = (r, f1, e1)"
    by (metis surj_pair)
  show ?thesis using assms p retry_events_no_ok [OF p]
    by (cases r) (auto simp: k1_entry_def Let_def updatePositionSizeFromBalance_def entry_size_log_def
        split: if_splits option.splits)
qed

lemma k1_try_entry_bought:
  assumes "k1_try_entry cfg w ticker k pm st fs = (st', fs', ev)"
    and "position st = None" "position st' = Some pos"
  shows "fs' = addHolding (pos_conditionId pos) (pos_tokenId pos) (entry_size cfg w)
                 (addHolding (pos_conditionId pos) (pos_tokenId pos) (entry_size cfg w) fs)"
  using assms
  by (auto simp: k1_try_entry_def Let_def split: if_splits dest!: k1_entry_bought)

lemma k1_try_entry_events_no_ok:
  assumes "k1_try_entry cfg w ticker k pm st fs = (st', fs', ev)"
  shows "Log (K1SellOk x) \<notin> set ev"
  using assms
  by (auto simp: k1_try_entry_def Let_def split: if_splits dest!: k1_entry_events_no_ok)

lemma place_events_no_abandon:
  "placePolymarketOrder cfg tok price sz opts r fs = (res, fs1, ev) \<Longrightarrow> Log K1Abandon \<notin> set ev"
  by (cases r) (auto simp: placePolymarketOrder_def Let_def split: if_splits)

lemma retry_events_no_abandon:
  assumes "placePolyBuyWithRetry cfg tok price sz opts r1 ask r2 fs = (res, fs1, ev)"
  shows "Log K1Abandon \<notin> set ev"
proof -
  obtain a fa ea where p1: "placePolymarketOrder cfg tok price sz opts r1 fs = (a, fa, ea)"
    by (metis surj_pair)
  let ?rp = "k1_retry_price ask"
  obtain b fb eb where p2: "placePolymarketOrder cfg tok ?rp sz opts r2 fa = (b, fb, eb)"
    by (metis surj_pair)
  show ?thesis using assms p1 p2 place_events_no_abandon [OF p1] place_events_no_abandon [OF p2]
    by (cases a) (auto simp: placePolyBuyWithRetry_def Let_def split: if_splits)
qed

lemma k1_entry_events_no_abandon:
  assumes "k1_entry cfg w ticker sd tok price c st fs = (st', fs', ev)"
  shows "Log K1Abandon \<notin> set ev"
proof -
  let ?o = "\<lparr>forcePlace = True, opt_conditionId = Some c\<rparr>"
  obtain r f1 e1 where p: "placePolyBuyWithRetry cfg tok price (entry_size cfg w) ?o
      (buy_reply w) (buy_best_ask w) (buy_retry_reply w) fs = (r, f1, e1)"
    by (metis surj_pair)
  show ?thesis using assms p retry_events_no_abandon [OF p]
    by (cases r) (auto simp: k1_entry_def Let_def updatePositionSizeFromBalance_def entry_size_log_def
        split: if_splits option.splits)
qed

lemma k1_try_entry_events_no_abandon:
  assumes "k1_try_entry cfg w ticker k pm st fs = (st', fs', ev)"
  shows "Log K1Abandon \<notin> set ev"
  using assms
  by (auto simp: k1_try_entry_def Let_def split: if_splits dest!: k1_entry_events_no_abandon)


lemma sell_events_kind:
  "sellPolymarketOrder cfg tok sz opts r = (res, ev) \<Longrightarrow>
   Log K1Abandon \<notin> set ev \<and> Log (K1Exit sd n x) \<notin> set ev"
  by (cases r) (auto simp: sellPolymarketOrder_def split: if_splits)

lemma sell_loop_abandoned:
  "sell_loop cfg w ticker a st fs = (st', fs', ev) \<Longrightarrow> position st = Some pos \<Longrightarrow>
   Log K1Abandon \<in> set ev \<Longrightarrow> st' = closed_out ticker st \<and> fs' = fs"
proof (induction "Suc SELL_MAX_ATTEMPTS - a" arbitrary: a st' fs' ev)
  case 0
  then show ?case by (subst (asm) sell_loop.simps) simp
next
  case (Suc n)
  then have le: "a \<le> SELL_MAX_ATTEMPTS" by simp
  obtain res ev1 where s: "sellPolymarketOrder cfg (pos_tokenId pos)
      (sell_size (sell_balance w a) (pos_size pos))
      \<lparr>forcePlace = True, opt_conditionId = Some (pos_conditionId pos)\<rparr> (sell_reply w a) = (res, ev1)"
    by (metis surj_pair)
  have no: "Log K1Abandon \<notin> set ev1" using sell_events_kind [OF s] by simp
  obtain st2 fs2 ev2 where r: "sell_loop cfg w ticker (Suc a) st fs = (st2, fs2, ev2)"
    by (metis surj_pair)
  have ih: "Log K1Abandon \<in> set ev2 \<Longrightarrow> st2 = closed_out ticker st \<and> fs2 = fs"
    using Suc.hyps(1) [of "Suc a", OF _ r Suc.prems(2)] Suc.hyps(2) by simp
  show ?case
  proof (cases res)
    case (OrderId oid)
    then show ?thesis using Suc.prems le s no
      by (subst (asm) sell_loop.simps) (auto simp: Let_def sell_size_not_small closed_out_def split: if_splits)
  next
    case (Error e)
    then show ?thesis using Suc.prems le s r no ih
      by (subst (asm) sell_loop.simps)
         (auto simp: Let_def sell_size_not_small closed_out_def split: if_splits)
  next
    case Null
    then show ?thesis using Suc.prems le s r no ih
      by (subst (asm) sell_loop.simps)
         (auto simp: Let_def sell_size_not_small split: if_splits)
  qed
qed



lemma exit_outcome_cases:
  assumes "checkKalshi1PolyStrategy cfg p w st fs = (st', fs', ev)"
    and "position st = Some pos"
  shows "(Log (K1SellOk x) \<in> set ev \<and> holdings_writable fs \<longrightarrow>
            cycleDoneTicker st' = Some (kalshiTicker p) \<and> position st' = None
            \<and> loadHoldings fs' (pos_conditionId pos) = None)
       \<and> (Log K1Abandon \<in> set ev \<longrightarrow>
            cycleDoneTicker st' = Some (kalshiTicker p) \<and> position st' = None \<and> fs' = fs)"
proof (cases "\<exists>k pm. kalshi p = Some k \<and> polymarket p = Some pm \<and> \<not> strategyBusy st")
  case False
  then have "ev = []" using assms(1)
    by (auto simp: checkKalshi1PolyStrategy_def split: option.splits if_splits)
  then show ?thesis by simp
next
  case True
  then obtain k pm where kp: "kalshi p = Some k" "polymarket p = Some pm" "\<not> strategyBusy st"
    by blast
  let ?t = "kalshiTicker p"
  let ?st0 = "onNewTicker ?t (st\<lparr>strategyBusy := True\<rparr>)"
  show ?thesis
  proof (cases "position ?st0")
    case None
    obtain s1 f1 e1 where t: "k1_try_entry cfg w ?t k pm ?st0 fs = (s1, f1, e1)"
      by (metis surj_pair)
    have "ev = e1" using assms(1) kp None t by (simp add: checkKalshi1PolyStrategy_def Let_def)
    moreover have "Log (K1SellOk x) \<notin> set e1" using k1_try_entry_events_no_ok [OF t] .
    moreover have "Log K1Abandon \<notin> set e1" using k1_try_entry_events_no_abandon [OF t] .
    ultimately show ?thesis by simp
  next
    case (Some pos')
    then have pp: "pos' = pos" using assms(2) by (auto simp: onNewTicker_def split: if_splits)
    obtain s1 f1 e1 where x: "k1_exit cfg w ?t k pm pos ?st0 fs = (s1, f1, e1)"
      by (metis surj_pair)
    have res: "st' = s1\<lparr>strategyBusy := False\<rparr>" "fs' = f1" "ev = e1"
      using assms(1) kp Some pp x by (simp_all add: checkKalshi1PolyStrategy_def Let_def)
    show ?thesis
    proof (cases "e1 = []")
      case True
      then show ?thesis using res by simp
    next
      case False
      then have l: "sell_loop cfg w ?t 1 ?st0 fs = (s1, f1, e1)"
        using x by (auto simp: k1_exit_def Let_def split: if_splits)
      have a: "Log (K1SellOk x) \<in> set e1 \<Longrightarrow>
            s1 = closed_out ?t ?st0 \<and> f1 = clearMarketHoldings (pos_conditionId pos) fs"
        using sell_loop_sold [OF l] Some pp by simp
      have b: "Log K1Abandon \<in> set e1 \<Longrightarrow> s1 = closed_out ?t ?st0 \<and> f1 = fs"
        using sell_loop_abandoned [OF l] Some pp by simp
      show ?thesis using a b res by (auto simp: closed_out_def loadHoldings_clear)
    qed
  qed
qed

lemma check_bought:
  assumes "checkKalshi1PolyStrategy cfg p w st fs = (st', fs', ev)"
    and "position st = None" "position st' = Some pos"
  shows "fs' = addHolding (pos_conditionId pos) (pos_tokenId pos) (entry_size cfg w)
                 (addHolding (pos_conditionId pos) (pos_tokenId pos) (entry_size cfg w) fs)"
proof (cases "\<exists>k pm. kalshi p = Some k \<and> polymarket p = Some pm \<and> \<not> strategyBusy st")
  case False
  then have "st' = st" using assms(1)
    by (auto simp: checkKalshi1PolyStrategy_def split: option.splits if_splits)
  then show ?thesis using assms by simp
next
  case True
  then obtain k pm where kp: "kalshi p = Some k" "polymarket p = Some pm" "\<not> strategyBusy st"
    by blast
  let ?t = "kalshiTicker p"
  let ?st0 = "onNewTicker ?t (st\<lparr>strategyBusy := True\<rparr>)"
  have n: "position ?st0 = None" using assms(2) by (simp add: onNewTicker_def)
  obtain s1 f1 e1 where t: "k1_try_entry cfg w ?t k pm ?st0 fs = (s1, f1, e1)"
    by (metis surj_pair)
  have "st' = s1\<lparr>strategyBusy := False\<rparr>" "fs' = f1"
    using assms(1) kp n t by (simp_all add: checkKalshi1PolyStrategy_def Let_def)
  then show ?thesis using k1_try_entry_bought [OF t n, of pos] assms(3) by simp
qed

lemmas k1_eval_defs =
  checkKalshi1PolyStrategy_def default_config_def snapshot_def world_ok_def k1_seen_def
  ledger_empty_def onNewTicker_def k1_try_entry_def k1_entry_def Let_def
  placePolyBuyWithRetry_def placePolymarketOrder_def addHolding_def js_ge_def js_gt_def
  KALSHI_1_def POLY_PRICE_MAX_def entry_size_def entry_size_log_def
  MINUTES_PAST_QUARTER_USE_BALANCE_def min_usd_def Math_min_def roundPriceToTickSize_def
  tick_decimals_def reply_failed_def updatePositionSizeFromBalance_def floor_cents_def
  ledger_qty_def getMarketHoldings_def loadHoldings_def saveHoldings_def

lemma buy_tick_facts:
  "position (fst buy_tick) = Some up_position"
  "lastTicker (fst buy_tick) = Some ''KXBTC15M-1''"
  "\<not> strategyBusy (fst buy_tick)"
  "holdings_writable (fst (snd buy_tick))"
  "ledger_qty (fst (snd buy_tick)) ''0xc0nd'' ''tok-up'' = Num 10"
  "loadHoldings (fst (snd buy_tick)) ''0xc0nd'' \<noteq> None"
  by (simp_all add: buy_tick_def up_position_def k1_eval_defs)

lemma check_sell_loop:
  assumes "kalshi p = Some k" "polymarket p = Some pm" "\<not> strategyBusy st"
    and "position st = Some pos"
    and "lastTicker st = None \<or> lastTicker st = Some (kalshiTicker p)"
    and "\<not> KALSHI_1_POLY_DRY_RUN cfg"
    and "js_lt (if pos_side pos = UP then upAsk pm else downAsk pm)
           (effectiveSellThreshold cfg
              (js_div (if pos_side pos = UP then upAskCents k else downAskCents k) (Num 100)))"
  shows "checkKalshi1PolyStrategy cfg p w st fs =
     (case sell_loop cfg w (kalshiTicker p) 1
             (st\<lparr>strategyBusy := True, lastTicker := Some (kalshiTicker p)\<rparr>) fs of
        (st', fs', ev) \<Rightarrow> (st'\<lparr>strategyBusy := False\<rparr>, fs', ev))"
  using assms by (auto simp: checkKalshi1PolyStrategy_def onNewTicker_def k1_exit_def Let_def)

lemma check_sells:
  assumes "kalshi p = Some k" "polymarket p = Some pm" "\<not> strategyBusy st"
    and "position st = Some pos"
    and "lastTicker st = None \<or> lastTicker st = Some (kalshiTicker p)"
    and "\<not> KALSHI_1_POLY_DRY_RUN cfg"
    and "js_lt (if pos_side pos = UP then upAsk pm else downAsk pm)
           (effectiveSellThreshold cfg
              (js_div (if pos_side pos = UP then upAskCents k else downAskCents k) (Num 100)))"
    and "configured cfg" and "\<not> reply_fails (sell_reply w 1)"
  shows "\<exists>x. Log (K1SellOk x) \<in> set (snd (snd (checkKalshi1PolyStrategy cfg p w st fs)))"
proof -
  let ?st0 = "st\<lparr>strategyBusy := True, lastTicker := Some (kalshiTicker p)\<rparr>"
  have "position ?st0 = Some pos" using assms(4) by simp
  from sell_loop_success [OF assms(8) this, of 1 1 w "kalshiTicker p" fs] assms(9)
  obtain ev where "sell_loop cfg w (kalshiTicker p) 1 ?st0 fs =
      (closed_out (kalshiTicker p) ?st0, clearMarketHoldings (pos_conditionId pos) fs, ev)"
    and "\<exists>x. Log (K1SellOk x) \<in> set ev"
    by (auto simp: SELL_MAX_ATTEMPTS_def)
  then show ?thesis using check_sell_loop [OF assms(1-7), of w fs] by simp
qed

lemma check_abandons:
  assumes "kalshi p = Some k" "polymarket p = Some pm" "\<not> strategyBusy st"
    and "position st = Some pos"
    and "lastTicker st = None \<or> lastTicker st = Some (kalshiTicker p)"
    and "\<not> KALSHI_1_POLY_DRY_RUN cfg"
    and "js_lt (if pos_side pos = UP then upAsk pm else downAsk pm)
           (effectiveSellThreshold cfg
              (js_div (if pos_side pos = UP then upAskCents k else downAskCents k) (Num 100)))"
    and "configured cfg" and "\<forall>i. reply_fails (sell_reply w i)"
  shows "Log K1Abandon \<in> set (snd (snd (checkKalshi1PolyStrategy cfg p w st fs)))"
proof -
  let ?st0 = "st\<lparr>strategyBusy := True, lastTicker := Some (kalshiTicker p)\<rparr>"
  have "position ?st0 = Some pos" using assms(4) by simp
  from sell_loop_abandon [OF assms(8) this, of 1 w "kalshiTicker p" fs] assms(9)
  obtain ev where "sell_loop cfg w (kalshiTicker p) 1 ?st0 fs =
      (closed_out (kalshiTicker p) ?st0, fs, ev)" and "Log K1Abandon \<in> set ev"
    by (auto simp: SELL_MAX_ATTEMPTS_def)
  then show ?thesis using check_sell_loop [OF assms(1-7), of w fs] by simp
qed

lemma sold_exit_sells: "\<exists>x. Log (K1SellOk x) \<in> set (snd (snd sold_exit))"
  unfolding sold_exit_def
  by (rule check_sells [where pos = up_position
        and k = "\<lparr>upAskCents = Num 100, downAskCents = Num 1\<rparr>"
        and pm = "\<lparr>upAsk = Num (50 / 100), downAsk = Num (51 / 100), upTokenId = ''tok-up'',
                   downTokenId = ''tok-down'', conditionId = ''0xc0nd''\<rparr>"])
     (simp_all add: snapshot_def k1_holding_def k1_seen_def up_position_def default_config_def
       effectiveSellThreshold_def js_ge_def js_sub_def configured_def world_ok_def reply_failed_def)

lemma failed_exit_abandons: "Log K1Abandon \<in> set (snd (snd failed_exit))"
  unfolding failed_exit_def
  by (rule check_abandons [where pos = up_position
        and k = "\<lparr>upAskCents = Num 100, downAskCents = Num 1\<rparr>"
        and pm = "\<lparr>upAsk = Num (50 / 100), downAsk = Num (51 / 100), upTokenId = ''tok-up'',
                   downTokenId = ''tok-down'', conditionId = ''0xc0nd''\<rparr>"])
     (simp_all add: snapshot_def k1_holding_def k1_seen_def up_position_def default_config_def
       effectiveSellThreshold_def js_ge_def js_sub_def configured_def world_ok_def
       world_sell_fails_def)

lemma sell_tick_sells: "\<exists>x. Log (K1SellOk x) \<in> set (snd (snd sell_tick))"
  unfolding sell_tick_def
  by (rule check_sells [where pos = up_position
        and k = "\<lparr>upAskCents = Num 100, downAskCents = Num 1\<rparr>"
        and pm = "\<lparr>upAsk = Num (50 / 100), downAsk = Num (51 / 100), upTokenId = ''tok-up'',
                   downTokenId = ''tok-down'', conditionId = ''0xc0nd''\<rparr>"])
     (simp_all add: buy_tick_facts snapshot_def up_position_def default_config_def
       effectiveSellThreshold_def js_ge_def js_sub_def configured_def world_ok_def reply_failed_def)

section \<open>The Follow-Confidence strategy: claims\<close>

text \<open>
  Claim C1, as amended. For a held position, an evaluation in which a sell succeeds marks
  the ticker cycle-done, clears the position and, the ledger file being writable, leaves
  no ledger entry for the position's conditionId; an evaluation that gives up after the
  last failed attempt marks the ticker cycle-done and clears the position, and leaves the
  ledger file as it was.
\<close>

theorem sold_clears_ledger_abandoned_keeps_it:
  assumes "checkKalshi1PolyStrategy cfg p w st fs = (st', fs', ev)"
    and "position st = Some pos"
  shows "(Log (K1SellOk x) \<in> set ev \<and> holdings_writable fs \<longrightarrow>
            cycleDoneTicker st' = Some (kalshiTicker p) \<and> position st' = None
            \<and> loadHoldings fs' (pos_conditionId pos) = None)
       \<and> (Log K1Abandon \<in> set ev \<longrightarrow>
            cycleDoneTicker st' = Some (kalshiTicker p) \<and> position st' = None \<and> fs' = fs)"
  using exit_outcome_cases [OF assms] .

text \<open>Both ends of the exit on the same held position: sold, and abandoned.\<close>

theorem sold_clears_ledger_abandoned_keeps_it_witness:
  "(cycleDoneTicker (fst sold_exit) = Some ''KXBTC15M-1'' \<and> position (fst sold_exit) = None
    \<and> loadHoldings ledger_held ''0xc0nd'' \<noteq> None
    \<and> loadHoldings (fst (snd sold_exit)) ''0xc0nd'' = None)
   \<and> (cycleDoneTicker (fst failed_exit) = Some ''KXBTC15M-1'' \<and> position (fst failed_exit) = None
      \<and> fst (snd failed_exit) = ledger_held)"
proof -
  obtain x where x: "Log (K1SellOk x) \<in> set (snd (snd sold_exit))"
    using sold_exit_sells by blast
  have p: "position k1_holding = Some up_position" by (simp add: k1_holding_def)
  have s: "checkKalshi1PolyStrategy default_config
       (snapshot (Num 100) (Num 1) (Num (50 / 100)) (Num (51 / 100))) world_ok
       k1_holding ledger_held = (fst sold_exit, fst (snd sold_exit), snd (snd sold_exit))"
    by (simp add: sold_exit_def)
  have f: "checkKalshi1PolyStrategy default_config
       (snapshot (Num 100) (Num 1) (Num (50 / 100)) (Num (51 / 100))) world_sell_fails
       k1_holding ledger_held = (fst failed_exit, fst (snd failed_exit), snd (snd failed_exit))"
    by (simp add: failed_exit_def)
  show ?thesis
    using sold_clears_ledger_abandoned_keeps_it [OF s p, of x]
      sold_clears_ledger_abandoned_keeps_it [OF f p, of x] x failed_exit_abandons
    by (simp add: ledger_held_def snapshot_def up_position_def loadHoldings_def)
qed

text \<open>
  Claim C1 as stated fails: with every sell attempt failing, the twentieth failure
  abandons the position and marks the cycle done, and the ledger still holds the entry
  of the conditionId with its 10 shares.
\<close>

theorem abandoned_exit_keeps_ledger_entry:
  "Log K1Abandon \<in> set (snd (snd failed_exit))
   \<and> cycleDoneTicker (fst failed_exit) = Some ''KXBTC15M-1''
   \<and> position (fst failed_exit) = None
   \<and> loadHoldings (fst (snd failed_exit)) ''0xc0nd'' \<noteq> None
   \<and> ledger_qty (fst (snd failed_exit)) ''0xc0nd'' ''tok-up'' = Num 10"
proof -
  have p: "position k1_holding = Some up_position" by (simp add: k1_holding_def)
  have f: "checkKalshi1PolyStrategy default_config
       (snapshot (Num 100) (Num 1) (Num (50 / 100)) (Num (51 / 100))) world_sell_fails
       k1_holding ledger_held = (fst failed_exit, fst (snd failed_exit), snd (snd failed_exit))"
    by (simp add: failed_exit_def)
  show ?thesis
    using exit_outcome_cases [OF f p, where x = "Num 0"] failed_exit_abandons
    by (simp add: ledger_held_def snapshot_def loadHoldings_def ledger_qty_def getMarketHoldings_def)
qed

text \<open>
  Claim C2. An evaluation that opens a position with a buy of \<open>s\<close> shares raises the
  ledger's amount for the position's conditionId and token by \<open>2 * s\<close>: once in
  \<^verbatim>\<open>placePolymarketOrder\<close> and once more in the strategy. The ids are non-empty, \<open>s\<close> is
  positive and the ledger file is writable (\<^verbatim>\<open>addHolding\<close> does nothing otherwise).
\<close>

theorem entry_buy_counts_twice:
  assumes "checkKalshi1PolyStrategy cfg p w st fs = (st', fs', ev)"
    and "position st = None" and "position st' = Some pos"
    and "holdings_writable fs"
    and "pos_conditionId pos \<noteq> []" and "pos_tokenId pos \<noteq> []"
    and "entry_size cfg w = Num s" and "0 < s"
    and "ledger_qty fs (pos_conditionId pos) (pos_tokenId pos) = Num c"
  shows "ledger_qty fs' (pos_conditionId pos) (pos_tokenId pos) = Num (c + 2 * s)"
proof -
  let ?c = "pos_conditionId pos" and ?t = "pos_tokenId pos"
  have pos: "\<not> js_le (Num s) (Num 0)" using assms(8) by simp
  have fs': "fs' = addHolding ?c ?t (Num s) (addHolding ?c ?t (Num s) fs)"
    using check_bought [OF assms(1-3)] assms(7) by simp
  have 1: "ledger_qty (addHolding ?c ?t (Num s) fs) ?c ?t = Num (c + s)"
    and w: "holdings_writable (addHolding ?c ?t (Num s) fs)"
    using addHolding_qty [OF assms(4,5,6) pos] assms(9) by simp_all
  show ?thesis using addHolding_qty(1) [OF w assms(5,6) pos] 1 fs' by simp
qed

text \<open>A buy of 5 shares into an empty ledger leaves 10.\<close>

theorem entry_buy_counts_twice_witness:
  "ledger_qty ledger_empty ''0xc0nd'' ''tok-up'' = Num 0
   \<and> entry_size default_config world_ok = Num 5
   \<and> position (fst buy_tick) = Some up_position
   \<and> ledger_qty (fst (snd buy_tick)) ''0xc0nd'' ''tok-up'' = Num 10"
proof -
  have b: "checkKalshi1PolyStrategy default_config
       (snapshot (Num 100) (Num 1) (Num (82 / 100)) (Num (19 / 100))) world_ok k1_seen ledger_empty
       = (fst buy_tick, fst (snd buy_tick), snd (snd buy_tick))"
    by (simp add: buy_tick_def)
  have n: "position k1_seen = None" by (simp add: k1_seen_def)
  have w: "holdings_writable ledger_empty" by (simp add: ledger_empty_def)
  have c: "pos_conditionId up_position \<noteq> []" "pos_tokenId up_position \<noteq> []"
    by (simp_all add: up_position_def)
  have e: "entry_size default_config world_ok = Num 5"
    by (simp add: entry_size_def world_ok_def default_config_def js_ge_def
        MINUTES_PAST_QUARTER_USE_BALANCE_def)
  have q: "ledger_qty ledger_empty (pos_conditionId up_position) (pos_tokenId up_position) = Num 0"
    by (simp add: ledger_qty_def getMarketHoldings_def loadHoldings_def ledger_empty_def)
  show ?thesis
    using entry_buy_counts_twice [OF b n buy_tick_facts(1) w c e _ q] e q buy_tick_facts(1)
    by (simp add: up_position_def)
qed



text \<open>
  Claim C10. A buy that opens a position, followed by an evaluation in which the sell of
  that position succeeds, leaves the ledger (its file being writable) with no entry for
  the position's conditionId: the key is gone, not mapped to a quantity of zero.
\<close>

theorem buy_then_sell_leaves_no_entry:
  assumes "checkKalshi1PolyStrategy cfg p1 w1 st0 fs0 = (st1, fs1, ev1)"
    and "position st0 = None" and "position st1 = Some pos"
    and "checkKalshi1PolyStrategy cfg p2 w2 st1 fs1 = (st2, fs2, ev2)"
    and "Log (K1SellOk x) \<in> set ev2"
    and "holdings_writable fs1"
  shows "loadHoldings fs2 (pos_conditionId pos) = None \<and> position st2 = None"
  using exit_outcome_cases [OF assms(4) assms(3), of x] assms(5,6) by simp

text \<open>The two evaluations above: the entry is there after the buy and gone after the sell.\<close>

theorem buy_then_sell_leaves_no_entry_witness:
  "loadHoldings (fst (snd buy_tick)) ''0xc0nd'' \<noteq> None
   \<and> loadHoldings (fst (snd sell_tick)) ''0xc0nd'' = None \<and> position (fst sell_tick) = None"
proof -
  obtain x where x: "Log (K1SellOk x) \<in> set (snd (snd sell_tick))"
    using sell_tick_sells by blast
  have b: "checkKalshi1PolyStrategy default_config
       (snapshot (Num 100) (Num 1) (Num (82 / 100)) (Num (19 / 100))) world_ok k1_seen ledger_empty
       = (fst buy_tick, fst (snd buy_tick), snd (snd buy_tick))"
    by (simp add: buy_tick_def)
  have s: "checkKalshi1PolyStrategy default_config
       (snapshot (Num 100) (Num 1) (Num (50 / 100)) (Num (51 / 100))) world_ok
       (fst buy_tick) (fst (snd buy_tick)) = (fst sell_tick, fst (snd sell_tick), snd (snd sell_tick))"
    by (simp add: sell_tick_def)
  have n: "position k1_seen = None" by (simp add: k1_seen_def)
  show ?thesis
    using buy_then_sell_leaves_no_entry [OF b n buy_tick_facts(1) s x buy_tick_facts(4)]
      buy_tick_facts(6)
    by (simp add: up_position_def)
qed

section \<open>The Cross-Venue Arbitrage strategy: lemmas\<close>

lemma placeOrder_events:
  assumes "placeOrder cfg t sd c pr True r = (res, ev)"
  shows "length (filter (entry_ordered lg t') ev) = (if t' = t \<and> kside_of lg = sd then 1 else 0)
    \<and> filter (entry_logged lg t') ev = []
    \<and> filter is_poly_buy ev = [] \<and> filter is_sell ev = []
    \<and> filter is_retry_log ev = []"
  using assms by (cases r) (auto simp: placeOrder_def Let_def)

lemma place_poly_events:
  assumes "placePolymarketOrder cfg tok price sz opts r fs = (res, fs1, ev)"
  shows "filter (entry_ordered lg t') ev = []
    \<and> filter (entry_logged lg t') ev = []
    \<and> length (filter is_poly_buy ev) \<le> 1 \<and> filter is_sell ev = []
    \<and> filter is_retry_log ev = []"
  using assms by (cases r) (auto simp: placePolymarketOrder_def Let_def split: if_splits)

lemma arb_retry_events:
  assumes "retryPolymarketFokAfter200ms cfg tok sz opts ask r fs = (res, fs1, ev)"
  shows "filter (entry_ordered lg t') ev = []
    \<and> filter (entry_logged lg t') ev = []
    \<and> length (filter is_poly_buy ev) \<le> 1 \<and> filter is_sell ev = []
    \<and> length (filter is_retry_log ev) = 1"
proof -
  obtain r2 f2 e2 where p: "placePolymarketOrder cfg tok (arb_retry_price cfg ask) sz opts r fs = (r2, f2, e2)"
    by (metis surj_pair)
  have ev: "ev = [Sleep FOK_RETRY_DELAY_MS, Log (ArbFokRetry (arb_retry_price cfg ask))] @ e2"
    using assms p by (simp add: retryPolymarketFokAfter200ms_def)
  show ?thesis using place_poly_events [OF p, of lg t'] ev by simp
qed

lemma arb_poly_leg_events:
  assumes "arb_poly_leg cfg w tok price sz opts fs = (res, fs1, ev)"
  shows "filter (entry_ordered lg t') ev = []
    \<and> filter (entry_logged lg t') ev = []
    \<and> length (filter is_poly_buy ev) \<le> 2 \<and> filter is_sell ev = []
    \<and> length (filter is_retry_log ev) \<le> 1"
proof -
  obtain r1 f1 e1 where p: "placePolymarketOrder cfg tok price sz opts (poly_buy_reply w) fs = (r1, f1, e1)"
    by (metis surj_pair)
  obtain r2 f2 e2 where q: "retryPolymarketFokAfter200ms cfg tok sz opts
                                    (retry_best_ask w) (poly_retry_reply w) f1 = (r2, f2, e2)"
    by (metis surj_pair)
  note a = place_poly_events [OF p, of lg t'] and b = arb_retry_events [OF q, of lg t']
  show ?thesis
    using assms p q a b
    by (cases r1) (auto simp: arb_poly_leg_def split: if_splits)
qed

lemma kside_of_inj: "kside_of a = kside_of b \<longleftrightarrow> a = b"
  by (cases a; cases b) simp_all

lemma leg_done_mark:
  "leg_done lg' (mark_done lg t st) = (if lg' = lg then insert t (leg_done lg st) else leg_done lg' st)"
  by (cases lg; cases lg') simp_all

lemma open_mark: "openArbPositions (mark_done lg t st) = openArbPositions st"
  by (cases lg) simp_all

lemma leg_done_open_upd: "leg_done lg (st\<lparr>openArbPositions := m\<rparr>) = leg_done lg st"
  by (cases lg) simp_all

lemma arb_enter_step:
  assumes "arb_enter cfg w t lg ka pa tok cid st fs = (st', fs', ev)"
  shows "leg_done lg' st' = (if lg' = lg then insert t (leg_done lg st) else leg_done lg' st)
    \<and> length (filter (entry_logged lg' t') ev) = (if lg' = lg \<and> t' = t then 1 else 0)
    \<and> length (filter (entry_ordered lg' t') ev) \<le> (if lg' = lg \<and> t' = t then 1 else 0)
    \<and> filter is_sell ev = [] \<and> length (filter is_retry_log ev) \<le> 1
    \<and> length (filter is_poly_buy ev) \<le> 2"
proof (cases "ARB_DRY_RUN cfg")
  case True
  then show ?thesis using assms by (auto simp: arb_enter_def Let_def leg_done_mark)
next
  case False
  let ?kc = "Math_max (ARB_KALSHI_MIN cfg) (Math_round (ARB_SIZE cfg))"
  let ?kp = "Math_round (js_mul (js_add ka (ARB_PRICE_BUFFER cfg)) (Num 100))"
  let ?pp = "Math_min (Num 1) (js_add pa (ARB_PRICE_BUFFER cfg))"
  let ?ps = "Math_max (ARB_POLY_MIN cfg)
                     (Math_max (ARB_SIZE cfg) (Math_ceil (js_div (min_usd cfg) ?pp)))"
  obtain kr kev where k: "placeOrder cfg t (kside_of lg) ?kc ?kp True (kalshi_buy_reply w) = (kr, kev)"
    by (metis surj_pair)
  obtain pr f2 pev where p: "arb_poly_leg cfg w tok ?pp ?ps
                        \<lparr>forcePlace = False, opt_conditionId = Some cid\<rparr> fs = (pr, f2, pev)"
    by (metis surj_pair)
  note a = placeOrder_events [OF k, of lg' t'] and b = arb_poly_leg_events [OF p, of lg' t']
  show ?thesis using assms False k p a b
    by (cases kr)
       (auto simp: arb_enter_def Let_def leg_done_mark leg_done_open_upd kside_of_inj
         split: if_splits)
qed

lemma exit_step:
  assumes "exitArbPosition cfg w t pos st = (st', ev)"
  shows "leg_done lg st' = leg_done lg st \<and> filter (entry_logged lg t') ev = []
    \<and> filter (entry_ordered lg t') ev = []"
proof -
  obtain kr kev where k: "placeSellOrder cfg t (kalshiSide pos) (kalshiCount pos) True (kalshi_sell_reply w) = (kr, kev)"
    by (metis surj_pair)
  obtain pr pev where p: "sellPolymarketOrder cfg (polyTokenId pos) (polySize pos)
                  \<lparr>forcePlace = True, opt_conditionId = None\<rparr> (poly_sell_reply w) = (pr, pev)"
    by (metis surj_pair)
  have kk: "filter (entry_logged lg t') kev = [] \<and> filter (entry_ordered lg t') kev = []"
    using k by (cases "kalshi_sell_reply w") (auto simp: placeSellOrder_def Let_def)
  have pp: "filter (entry_logged lg t') pev = [] \<and> filter (entry_ordered lg t') pev = []"
    using p by (cases "poly_sell_reply w") (auto simp: sellPolymarketOrder_def split: if_splits)
  show ?thesis using assms k p kk pp
    by (cases kr; cases pr) (auto simp: exitArbPosition_def leg_done_open_upd)
qed



section \<open>The Cross-Venue Arbitrage strategy: claims\<close>


lemma poly_place_logs:
  assumes "placePolymarketOrder cfg tok price sz opts r fs = (res, fs1, ev)"
    and "\<not> ARB_DRY_RUN cfg"
  shows "((\<exists>oid. Log (PolyBuyPlaced oid) \<in> set ev) \<longleftrightarrow> is_order res)
    \<and> (res = Null \<longrightarrow> Log PolyNotConfigured \<in> set ev)
    \<and> (\<forall>x. Log (KalshiOrderPlaced x) \<notin> set ev \<and> Log (ArbKalshiFailed x) \<notin> set ev)
    \<and> (\<forall>l x. Log (ArbOpportunity l x) \<notin> set ev)"
  using assms by (cases r) (auto simp: placePolymarketOrder_def Let_def split: if_splits)

lemma arb_poly_leg_logs:
  assumes "arb_poly_leg cfg w tok price sz opts fs = (res, fs1, ev)"
    and "\<not> ARB_DRY_RUN cfg"
  shows "((\<exists>oid. Log (PolyBuyPlaced oid) \<in> set ev) \<longleftrightarrow> is_order res)
    \<and> (\<not> is_order res \<longrightarrow> (\<exists>e. Log (ArbPolyFailed e) \<in> set ev) \<or> Log PolyNotConfigured \<in> set ev)
    \<and> (\<forall>x. Log (KalshiOrderPlaced x) \<notin> set ev \<and> Log (ArbKalshiFailed x) \<notin> set ev)
    \<and> (\<forall>l x. Log (ArbOpportunity l x) \<notin> set ev)"
proof -
  obtain r1 f1 e1 where p: "placePolymarketOrder cfg tok price sz opts (poly_buy_reply w) fs = (r1, f1, e1)"
    by (metis surj_pair)
  obtain r2 f2 e2 where q: "placePolymarketOrder cfg tok (arb_retry_price cfg (retry_best_ask w)) sz opts
       (poly_retry_reply w) f1 = (r2, f2, e2)"
    by (metis surj_pair)
  note a = poly_place_logs [OF p assms(2)] and b = poly_place_logs [OF q assms(2)]
  show ?thesis
  proof (cases r1)
    case (Error e)
    then show ?thesis using assms(1) p q a b
      by (auto simp: arb_poly_leg_def retryPolymarketFokAfter200ms_def split: if_splits)
  next
    case (OrderId x)
    then show ?thesis using assms(1) p a by (auto simp: arb_poly_leg_def)
  next
    case Null
    then show ?thesis using assms(1) p a by (auto simp: arb_poly_leg_def)
  qed
qed

lemma placeOrder_logs:
  assumes "placeOrder cfg t sd c pr True r = (res, ev)"
  shows "((\<exists>x. Log (KalshiOrderPlaced x) \<in> set ev) \<longleftrightarrow> \<not> k_is_error res)
    \<and> (\<forall>x. Log (PolyBuyPlaced x) \<notin> set ev \<and> Log (ArbPolyFailed x) \<notin> set ev
           \<and> Log (ArbKalshiFailed x) \<notin> set ev)
    \<and> Log PolyNotConfigured \<notin> set ev"
  using assms by (cases r) (auto simp: placeOrder_def Let_def)

lemma arb_enter_outcome:
  assumes "arb_enter cfg w t lg ka pa tok cid st fs = (st', fs', ev)" and "\<not> ARB_DRY_RUN cfg"
  shows "(if (\<exists>x. Log (KalshiOrderPlaced x) \<in> set ev) \<and> (\<exists>x. Log (PolyBuyPlaced x) \<in> set ev)
          then \<exists>pos. openArbPositions st' = (openArbPositions st)(t \<mapsto> pos)
                 \<and> arb_leg pos = lg \<and> kalshiSide pos = kside_of lg \<and> polyTokenId pos = tok
          else openArbPositions st' = openArbPositions st
               \<and> ((\<exists>e. Log (ArbKalshiFailed e) \<in> set ev) \<or> (\<exists>e. Log (ArbPolyFailed e) \<in> set ev)
                  \<or> Log PolyNotConfigured \<in> set ev))"
proof -
  let ?kc = "Math_max (ARB_KALSHI_MIN cfg) (Math_round (ARB_SIZE cfg))"
  let ?kp = "Math_round (js_mul (js_add ka (ARB_PRICE_BUFFER cfg)) (Num 100))"
  let ?pp = "Math_min (Num 1) (js_add pa (ARB_PRICE_BUFFER cfg))"
  let ?ps = "Math_max (ARB_POLY_MIN cfg)
                     (Math_max (ARB_SIZE cfg) (Math_ceil (js_div (min_usd cfg) ?pp)))"
  obtain kr kev where k: "placeOrder cfg t (kside_of lg) ?kc ?kp True (kalshi_buy_reply w) = (kr, kev)"
    by (metis surj_pair)
  obtain pr f2 pev where p: "arb_poly_leg cfg w tok ?pp ?ps
                        \<lparr>forcePlace = False, opt_conditionId = Some cid\<rparr> fs = (pr, f2, pev)"
    by (metis surj_pair)
  note a = placeOrder_logs [OF k] and b = arb_poly_leg_logs [OF p assms(2)]
  have ev: "ev = [Log (ArbOpportunity lg t)] @ kev @ pev
                   @ (case kr of KError e \<Rightarrow> [Log (ArbKalshiFailed e)] | _ \<Rightarrow> [])"
    and st': "st' = (if \<not> k_is_error kr \<and> is_order pr
                  then (mark_done lg t st)\<lparr>openArbPositions := (openArbPositions (mark_done lg t st))(t \<mapsto>
                                  \<lparr>arb_leg = lg, kalshiSide = kside_of lg,
                                   kalshiCount = ?kc, polyTokenId = tok,
                                   polySize = ?ps\<rparr>)\<rparr> else mark_done lg t st)"
    using assms k p by (simp_all add: arb_enter_def Let_def)
  have kp: "(\<exists>x. Log (KalshiOrderPlaced x) \<in> set ev) \<longleftrightarrow> \<not> k_is_error kr"
    using a b ev by (cases kr) auto
  have pp: "(\<exists>x. Log (PolyBuyPlaced x) \<in> set ev) \<longleftrightarrow> is_order pr"
    using a b ev by (cases kr) auto
  show ?thesis
  proof (cases "\<not> k_is_error kr \<and> is_order pr")
    case True
    let ?pos = "\<lparr>arb_leg = lg, kalshiSide = kside_of lg, kalshiCount = ?kc, polyTokenId = tok,
                 polySize = ?ps\<rparr>"
    have "openArbPositions st' = (openArbPositions st)(t \<mapsto> ?pos)
          \<and> arb_leg ?pos = lg \<and> kalshiSide ?pos = kside_of lg \<and> polyTokenId ?pos = tok"
      using True st' by (simp add: open_mark)
    then have "\<exists>pos. openArbPositions st' = (openArbPositions st)(t \<mapsto> pos)
                 \<and> arb_leg pos = lg \<and> kalshiSide pos = kside_of lg \<and> polyTokenId pos = tok"
      by (rule exI)
    then show ?thesis using True kp pp by simp
  next
    case False
    have "(\<exists>e. Log (ArbKalshiFailed e) \<in> set ev) \<or> (\<exists>e. Log (ArbPolyFailed e) \<in> set ev)
                  \<or> Log PolyNotConfigured \<in> set ev"
    proof (cases "k_is_error kr")
      case True
      then show ?thesis using ev by (cases kr) auto
    next
      case kok: False
      then have "\<not> is_order pr" using False by simp
      then show ?thesis using b ev by auto
    qed
    then show ?thesis using False kp pp st' by (auto simp: open_mark)
  qed
qed

lemma exit_no_opportunity:
  assumes "exitArbPosition cfg w t pos st = (st', ev)"
  shows "Log (ArbOpportunity lg x) \<notin> set ev"
  using exit_step [OF assms, of lg x] by (auto simp: filter_empty_conv)

lemma arb_enter_opportunity:
  assumes "arb_enter cfg w t lg ka pa tok cid st fs = (st', fs', ev)"
  shows "Log (ArbOpportunity lg' x) \<in> set ev \<longleftrightarrow> lg' = lg \<and> x = t"
proof -
  have "length (filter (entry_logged lg' x) ev) = (if lg' = lg \<and> x = t then 1 else 0)"
    using arb_enter_step [OF assms, of lg' x] by simp
  moreover have "Log (ArbOpportunity lg' x) \<in> set ev \<longleftrightarrow> filter (entry_logged lg' x) ev \<noteq> []"
  proof -
    have "entry_logged lg' x e \<longleftrightarrow> e = Log (ArbOpportunity lg' x)" for e
      by (cases "(lg', x, e)" rule: entry_logged.cases) auto
    then show ?thesis by (auto simp: filter_empty_conv)
  qed
  ultimately show ?thesis by (auto split: if_splits)
qed

lemma arb_enter_no_sell:
  assumes "arb_enter cfg w t lg ka pa tok cid st fs = (st', fs', ev)"
  shows "filter is_sell ev = []"
  using arb_enter_step [OF assms, of lg t] by simp

text \<open>
  Claim C6. In live mode, an evaluation that attempts the entry of a leg stores an
  ArbPosition for the ticker exactly when the Kalshi order was placed and a Polymarket
  order (the first or its retry) was placed. If either failed, the map of open positions
  is left as it was and a failure line (Kalshi failed, Polymarket failed, or Polymarket
  not configured) is logged. In both cases the evaluation issues no sell on either venue.
\<close>

theorem arb_position_iff_both_orders:
  assumes "checkArbAndPlaceOrders cfg p w st fs = (st', fs', ev)"
    and "\<not> ARB_DRY_RUN cfg" and "Log (ArbOpportunity lg t) \<in> set ev"
  shows "(if (\<exists>x. Log (KalshiOrderPlaced x) \<in> set ev) \<and> (\<exists>x. Log (PolyBuyPlaced x) \<in> set ev)
          then \<exists>pos. openArbPositions st' = (openArbPositions st)(t \<mapsto> pos)
                 \<and> arb_leg pos = lg \<and> kalshiSide pos = kside_of lg
          else openArbPositions st' = openArbPositions st
               \<and> ((\<exists>e. Log (ArbKalshiFailed e) \<in> set ev) \<or> (\<exists>e. Log (ArbPolyFailed e) \<in> set ev)
                  \<or> Log PolyNotConfigured \<in> set ev))
         \<and> filter is_sell ev = []"
proof -
  obtain k pm where kp: "kalshi p = Some k" "polymarket p = Some pm"
    using assms(1,3) by (auto simp: checkArbAndPlaceOrders_def split: option.splits)
  let ?t = "kalshiTicker p"
  obtain sx ex where x: "exitArbPosition cfg w ?t (the (openArbPositions st ?t)) st = (sx, ex)"
    by (metis surj_pair)
  obtain su fu eu where u: "arb_enter cfg w ?t UP (js_div (upAskCents k) (Num 100)) (downAsk pm)
      (downTokenId pm) (conditionId pm) st fs = (su, fu, eu)"
    by (metis surj_pair)
  obtain sd fd ed where d: "arb_enter cfg w ?t DOWN (js_div (downAskCents k) (Num 100)) (upAsk pm)
      (upTokenId pm) (conditionId pm) st fs = (sd, fd, ed)"
    by (metis surj_pair)
  note nx = exit_no_opportunity [OF x, of lg t]
  note ou = arb_enter_opportunity [OF u, of lg t] and od = arb_enter_opportunity [OF d, of lg t]
  consider (up) "st' = su" "ev = eu" "lg = UP" "t = ?t"
    | (down) "st' = sd" "ev = ed" "lg = DOWN" "t = ?t"
    using assms(1,3) kp x u d nx ou od
    by (auto simp: checkArbAndPlaceOrders_def Let_def split: if_splits)
  then show ?thesis
  proof cases
    case up
    show ?thesis
      using arb_enter_outcome [OF u assms(2)] arb_enter_no_sell [OF u]
      unfolding up by (simp split: if_splits) blast+
  next
    case down
    show ?thesis
      using arb_enter_outcome [OF d assms(2)] arb_enter_no_sell [OF d]
      unfolding down by (simp split: if_splits) blast+
  qed
qed










lemma band_events:
  "snd (snd (checkArbAndPlaceOrders default_config band_snapshot arb_world_ok arb_fresh ledger_empty))
   = [Log (ArbOpportunity UP ''KXBTC15M-1''), KalshiBuy ''KXBTC15M-1'' Yes (Num 5) (Num 57),
      Log (KalshiOrderPlaced ''k-1''), PolyBuy ''tok-down'' (Num (33 / 100)) (Num 5),
      Log (PolyBuyPlaced ''p-1'')]"
  by code_simp

lemma band_fail_events:
  "snd (snd (checkArbAndPlaceOrders default_config band_snapshot arb_world_poly_fails arb_fresh ledger_empty))
   = [Log (ArbOpportunity UP ''KXBTC15M-1''), KalshiBuy ''KXBTC15M-1'' Yes (Num 5) (Num 57),
      Log (KalshiOrderPlaced ''k-1''), PolyBuy ''tok-down'' (Num (33 / 100)) (Num 5),
      Log (PolyBuyFailed ''not enough balance''), Log (ArbPolyFailed ''not enough balance'')]"
  by code_simp


lemma triple: "x = (fst x, fst (snd x), snd (snd x))"
  by simp



text \<open>
  Both orders placed: the position is stored. The Polymarket order refused for lack of
  balance: nothing is stored and nothing is sold.
\<close>

theorem arb_position_iff_both_orders_witness:
  "(\<exists>pos. openArbPositions (fst (checkArbAndPlaceOrders default_config band_snapshot arb_world_ok
              arb_fresh ledger_empty)) = (openArbPositions arb_fresh)(''KXBTC15M-1'' \<mapsto> pos)
          \<and> arb_leg pos = UP \<and> kalshiSide pos = Yes)
   \<and> openArbPositions (fst (checkArbAndPlaceOrders default_config band_snapshot arb_world_poly_fails
              arb_fresh ledger_empty)) = openArbPositions arb_fresh
   \<and> filter is_sell (snd (snd (checkArbAndPlaceOrders default_config band_snapshot
              arb_world_poly_fails arb_fresh ledger_empty))) = []"
proof -
  have d: "\<not> ARB_DRY_RUN default_config" by (simp add: default_config_def)
  have o1: "Log (ArbOpportunity UP ''KXBTC15M-1'') \<in> set (snd (snd (checkArbAndPlaceOrders
      default_config band_snapshot arb_world_ok arb_fresh ledger_empty)))"
    by (simp add: band_events)
  have o2: "Log (ArbOpportunity UP ''KXBTC15M-1'') \<in> set (snd (snd (checkArbAndPlaceOrders
      default_config band_snapshot arb_world_poly_fails arb_fresh ledger_empty)))"
    by (simp add: band_fail_events)
  show ?thesis
    using arb_position_iff_both_orders [OF triple d o1] arb_position_iff_both_orders [OF triple d o2]
    by (simp add: band_events band_fail_events)
qed



section \<open>The single-instance lock and the balance check: claims\<close>

text \<open>
  Claim C4 as stated fails: the lock file names the running process 4242, it cannot be
  unlinked and 4242 is still running after its SIGTERM; the exclusive create then fails
  with \<^verbatim>\<open>EEXIST\<close> and acquire exits with status 1 because that instance holds the lock.
\<close>

theorem live_lock_holder_makes_acquire_exit:
  "lock_file lock_stuck = Some ''4242'' \<and> parseInt10 (js_trim ''4242'') = Some 4242
   \<and> isPidRunning lock_stuck 4242 \<and> own_pid lock_stuck \<noteq> 4242
   \<and> acquireMonitorLock lock_stuck = (lock_stuck, [Sigterm 4242, AlreadyRunning 4242], Exited 1)"
  by code_simp

lemma parse_own: "parseInt10 (js_trim ''4242'') = Some 4242"
  by code_simp

text \<open>
  Claim C4, as amended. When the lock file names a running process other than the caller,
  that process is sent SIGTERM (unless sending the signal itself fails, which is
  ignored). If the lock file can be removed, acquire never exits the process, and when
  the exclusive create raises no error it returns with the caller's pid in the lock
  file. If the lock file cannot be removed and the other process is still running,
  acquire reports it and exits with status 1, leaving the lock file as it was.
\<close>

theorem lock_takeover:
  assumes "lock_file env = Some c" and "parseInt10 (js_trim c) = Some pid"
    and "pid \<noteq> own_pid env" and "isPidRunning env pid"
    and "acquireMonitorLock env = (env', ev, out)"
  shows "(\<not> kill_fails env \<longrightarrow> Sigterm pid \<in> set ev)
       \<and> (\<not> unlink_fails env \<longrightarrow>
            (\<forall>n. out \<noteq> Exited n)
            \<and> (excl_write_error env = None \<longrightarrow>
                 out = Acquired \<and> lock_file env' = Some (js_String (own_pid env))))
       \<and> (unlink_fails env \<and> (kill_fails env \<or> \<not> term_stops env) \<longrightarrow>
            out = Exited 1 \<and> AlreadyRunning pid \<in> set ev \<and> lock_file env' = Some c)"
  using assms
  by (auto simp: acquireMonitorLock_def killExistingAndRemoveLock_def send_sigterm_def
      unlink_lock_def isPidRunning_def Let_def split: if_splits option.splits)

text \<open>
  Process 100 takes the lock over from the running process 4242; with the lock file
  stuck and 4242 still running it exits with status 1.
\<close>

theorem lock_takeover_witness:
  "acquireMonitorLock lock_held
     = (lock_held\<lparr>lock_file := Some ''100'', running := {100}\<rparr>, [Sigterm 4242], Acquired)
   \<and> Sigterm 4242 \<in> set (fst (snd (acquireMonitorLock lock_held)))
   \<and> snd (snd (acquireMonitorLock lock_held)) = Acquired
   \<and> lock_file (fst (acquireMonitorLock lock_held)) = Some (js_String 100)
   \<and> snd (snd (acquireMonitorLock lock_stuck)) = Exited 1"
proof -
  have e: "acquireMonitorLock lock_held
     = (lock_held\<lparr>lock_file := Some ''100'', running := {100}\<rparr>, [Sigterm 4242], Acquired)"
    by code_simp
  have h: "lock_file lock_held = Some ''4242''" "4242 \<noteq> own_pid lock_held"
    "isPidRunning lock_held 4242" "\<not> kill_fails lock_held" "\<not> unlink_fails lock_held"
    "excl_write_error lock_held = None" "own_pid lock_held = 100"
    by (simp_all add: lock_held_def isPidRunning_def)
  have s: "lock_file lock_stuck = Some ''4242''" "4242 \<noteq> own_pid lock_stuck"
    "isPidRunning lock_stuck 4242" "unlink_fails lock_stuck" "\<not> term_stops lock_stuck"
    by (simp_all add: lock_stuck_def lock_held_def isPidRunning_def)
  have js100: "js_String 100 = ''100''" by code_simp
  have t: "x = (fst x, fst (snd x), snd (snd x))" for x :: "lock_env \<times> lock_event list \<times> lock_outcome"
    by simp
  show ?thesis
    using lock_takeover [OF h(1) parse_own h(2,3) t] lock_takeover [OF s(1) parse_own s(2,3) t]
      h(4-7) s(4,5) e js100
    by simp
qed

text \<open>
  Claim C9, as amended. A balance below the minimum on either venue is found by the check
  at start (Kalshi cents below \<^verbatim>\<open>Math.round(MIN_BALANCE_USD * 100)\<close>, or a configured
  Polymarket balance below \<^verbatim>\<open>MIN_BALANCE_USD\<close>). The Follow-Confidence entry point logs the
  shortfall and continues; the arbitrage monitor's entry point logs it and exits with
  status 1.
\<close>

theorem balance_shortfall_exits_only_in_arb_monitor:
  "snd (checkBalancesOrExit_kalshi1poly cfg (Some kc) pu) = Continues
   \<and> (Log BalanceBelowMinimum \<in> set (fst (checkBalancesOrExit_kalshi1poly cfg (Some kc) pu))
        \<longleftrightarrow> balance_short cfg kc pu)
   \<and> snd (checkBalancesOrExit cfg (Some kc) pu)
        = (if balance_short cfg kc pu then Exits 1 else Continues)
   \<and> (balance_short cfg (Num c) (Some (Num u))
        \<longleftrightarrow> js_lt (Num c) (Math_round (js_mul (MIN_BALANCE_USD cfg) (Num 100)))
            \<or> js_lt (Num u) (MIN_BALANCE_USD cfg) \<or> MIN_BALANCE_USD cfg = NaN)"
  by (cases "MIN_BALANCE_USD cfg")
     (auto simp: checkBalancesOrExit_kalshi1poly_def checkBalancesOrExit_def balance_short_def
       Let_def js_ge_def inf_of_sign_def)

text \<open>Kalshi at 1 dollar with a minimum of 5: one entry point goes on, the other exits.\<close>

theorem balance_shortfall_exits_only_in_arb_monitor_witness:
  "balance_short default_config (Num 100) (Some (Num 50))
   \<and> checkBalancesOrExit_kalshi1poly default_config (Some (Num 100)) (Some (Num 50))
       = ([Log BalanceBelowMinimum], Continues)
   \<and> snd (checkBalancesOrExit default_config (Some (Num 100)) (Some (Num 50))) = Exits 1
   \<and> \<not> balance_short default_config (Num 500) (Some (Num 5))"
  using balance_shortfall_exits_only_in_arb_monitor [of default_config "Num 100" "Some (Num 50)" 100 50]
    balance_shortfall_exits_only_in_arb_monitor [of default_config "Num 500" "Some (Num 5)" 500 5]
  by (simp add: default_config_def checkBalancesOrExit_kalshi1poly_def)

text \<open>
  Claim C9 as stated fails for the arbitrage monitor: with 1 dollar on Kalshi and a
  minimum of 5 its balance check ends the process with status 1.
\<close>

theorem arb_monitor_exits_on_low_balance:
  "balance_short default_config (Num 100) (Some (Num 50))
   \<and> checkBalancesOrExit default_config (Some (Num 100)) (Some (Num 50))
       = ([Log BalanceBelowMinimum], Exits 1)"
  by code_simp

end
